theory Spec2Isabelle
  imports Complex_Main
begin

unbundle bit_operations_syntax

section \<open>The QWOP character controller\<close>

text \<open>
  A shallow embedding of \<^verbatim>\<open>constants.js\<close>, \<^verbatim>\<open>physics.js\<close>, \<^verbatim>\<open>input.js\<close>,
  \<^verbatim>\<open>character.js\<close> and \<^verbatim>\<open>game.js\<close>.

  JavaScript numbers are modelled as reals: the rounding of IEEE doubles is not part of the
  model. The rigid-body engine (Rapier) is an external library. Its handles are modelled by
  records that hold what the program reads from them and what it tells them: a body keeps
  its pose, its velocities, its damping, its collider and the list of impulses it was
  handed; a joint keeps its anchors, its limits and the last motor command. What the engine computes in \<^verbatim>\<open>world.step()\<close> is an input of
  the model. The clock (\<^verbatim>\<open>performance.now()\<close>, the base of \<^verbatim>\<open>setTimeout\<close>) is an input as
  well. Meshes, force indicators and console output are not modelled.
\<close>

subsection \<open>constants.js\<close>

datatype key = KeyQ | KeyW | KeyO | KeyP | Space | Escape

definition GRAVITY :: real where "GRAVITY = - 10"
definition FIXED_TIMESTEP :: real where "FIXED_TIMESTEP = 1 / 60"
definition GROUND_FRICTION :: real where "GROUND_FRICTION = 85 / 100"
definition JOINT_MOTOR_MAX_FORCE :: real where "JOINT_MOTOR_MAX_FORCE = 100"
definition MAX_MOTOR_VELOCITY :: real where "MAX_MOTOR_VELOCITY = 20"
definition INITIAL_POSITION :: "real \<times> real" where "INITIAL_POSITION = (0, - (35 / 10))"
definition LINEAR_DAMPING :: real where "LINEAR_DAMPING = 15 / 100"
definition ANGULAR_DAMPING :: real where "ANGULAR_DAMPING = 15 / 100"
definition INITIAL_STIFFNESS :: real where "INITIAL_STIFFNESS = 35"
definition INITIAL_DAMPING :: real where "INITIAL_DAMPING = 3"

definition TORSO_WIDTH :: real where "TORSO_WIDTH = 3 / 10"
definition TORSO_HEIGHT :: real where "TORSO_HEIGHT = 6 / 10"
definition TORSO_DENSITY :: real where "TORSO_DENSITY = 12 / 10"
definition THIGH_WIDTH :: real where "THIGH_WIDTH = 15 / 100"
definition THIGH_HEIGHT :: real where "THIGH_HEIGHT = 45 / 100"
definition THIGH_DENSITY :: real where "THIGH_DENSITY = 7 / 10"
definition CALF_WIDTH :: real where "CALF_WIDTH = 12 / 100"
definition CALF_HEIGHT :: real where "CALF_HEIGHT = 45 / 100"
definition CALF_DENSITY :: real where "CALF_DENSITY = 5 / 10"
definition FOOT_WIDTH :: real where "FOOT_WIDTH = 25 / 100"
definition FOOT_HEIGHT :: real where "FOOT_HEIGHT = 8 / 100"
definition FOOT_DENSITY :: real where "FOOT_DENSITY = 6 / 10"
definition ARM_WIDTH :: real where "ARM_WIDTH = 1 / 10"
definition ARM_HEIGHT :: real where "ARM_HEIGHT = 4 / 10"
definition ARM_DENSITY :: real where "ARM_DENSITY = 4 / 10"

definition HIP_MIN_ANGLE :: real where "HIP_MIN_ANGLE = - pi / 2"
definition HIP_MAX_ANGLE :: real where "HIP_MAX_ANGLE = pi * (125 / 100)"
definition KNEE_MIN_ANGLE :: real where "KNEE_MIN_ANGLE = - pi * (8 / 10)"
definition KNEE_MAX_ANGLE :: real where "KNEE_MAX_ANGLE = 5 / 100"
definition KNEE_STIFFNESS :: real where "KNEE_STIFFNESS = 10"
definition KNEE_DAMPING :: real where "KNEE_DAMPING = 1"
definition KNEE_REST_ANGLE :: real where "KNEE_REST_ANGLE = - (5 / 100)"
definition ANKLE_MIN_ANGLE :: real where "ANKLE_MIN_ANGLE = - pi / 3"
definition ANKLE_MAX_ANGLE :: real where "ANKLE_MAX_ANGLE = pi / 3"
definition SHOULDER_MIN_ANGLE :: real where "SHOULDER_MIN_ANGLE = - pi / 2"
definition SHOULDER_MAX_ANGLE :: real where "SHOULDER_MAX_ANGLE = pi / 2"
definition SHOULDER_STIFFNESS :: real where "SHOULDER_STIFFNESS = 8"
definition SHOULDER_DAMPING :: real where "SHOULDER_DAMPING = 12 / 10"
definition SHOULDER_REST_ANGLE :: real where "SHOULDER_REST_ANGLE = pi / 8"

datatype game_state = MAIN_MENU | PLAYING | GAME_OVER | PAUSED

definition HEAD_GROUND_THRESHOLD :: real where "HEAD_GROUND_THRESHOLD = - (48 / 10)"

subsection \<open>input.js\<close>

text \<open>The handler's \<^verbatim>\<open>keyState\<close> table; a key that is not down reads \<^verbatim>\<open>false\<close>.\<close>

type_synonym inputHandler = "key \<Rightarrow> bool"

definition isKeyPressed :: "inputHandler \<Rightarrow> key \<Rightarrow> bool" where
  "isKeyPressed keyState keyCode = keyState keyCode"

subsection \<open>physics.js: bodies and joints\<close>

type_synonym vec = "real \<times> real"

definition GROUP_TORSO :: nat where "GROUP_TORSO = 1"
definition GROUP_LEFT_LEG :: nat where "GROUP_LEFT_LEG = 2"
definition GROUP_RIGHT_LEG :: nat where "GROUP_RIGHT_LEG = 4"
definition GROUP_GROUND :: nat where "GROUP_GROUND = 8"

record collision_filter =
  memberships :: nat
  filter_mask :: nat

definition FILTER_TORSO :: collision_filter where
  "FILTER_TORSO = \<lparr>memberships = GROUP_TORSO,
     filter_mask = GROUP_GROUND OR GROUP_LEFT_LEG OR GROUP_RIGHT_LEG\<rparr>"

definition FILTER_LEFT_LEG :: collision_filter where
  "FILTER_LEFT_LEG = \<lparr>memberships = GROUP_LEFT_LEG, filter_mask = GROUP_GROUND OR GROUP_TORSO\<rparr>"

definition FILTER_RIGHT_LEG :: collision_filter where
  "FILTER_RIGHT_LEG = \<lparr>memberships = GROUP_RIGHT_LEG, filter_mask = GROUP_GROUND OR GROUP_TORSO\<rparr>"

datatype collider = Cuboid real real | Capsule real real

text \<open>
  A rigid-body handle. \<open>impulses\<close> lists every \<^verbatim>\<open>applyImpulse\<close> call the handle received
  since it was created, oldest first.
\<close>

record body =
  translation :: vec
  rotation :: real
  linvel :: vec
  angvel :: real
  linearDamping :: real
  angularDamping :: real
  impulses :: "vec list"
  shape :: collider
  density :: real
  collisionGroups :: nat

text \<open>
  The engine gives a body the mass of its collider: the density times the area, which is
  that of the box for a cuboid of half extents \<open>hx\<close> and \<open>hy\<close>, and that of the box between
  the caps plus the disc of the two caps for a capsule. The torso weighs
  \<open>1.2 \<cdot> 0.3 \<cdot> 0.6 = 0.216\<close>.
\<close>

fun colliderArea :: "collider \<Rightarrow> real" where
  "colliderArea (Cuboid hx hy) = 4 * hx * hy"
| "colliderArea (Capsule halfHeight radius) = 4 * radius * halfHeight + pi * radius * radius"

definition mass :: "body \<Rightarrow> real" where
  "mass b = density b * colliderArea (shape b)"

text \<open>
  The engine's \<^verbatim>\<open>applyImpulse\<close> acts at once: the linear velocity grows by the impulse
  divided by the mass.
\<close>

definition applyImpulse :: "vec \<Rightarrow> body \<Rightarrow> body" where
  "applyImpulse v b =
     b\<lparr>linvel := (fst (linvel b) + fst v / mass b, snd (linvel b) + snd v / mass b),
       impulses := impulses b @ [v]\<rparr>"

definition setLinvel :: "vec \<Rightarrow> body \<Rightarrow> body" where
  "setLinvel v b = b\<lparr>linvel := v\<rparr>"

definition setAngvel :: "real \<Rightarrow> body \<Rightarrow> body" where
  "setAngvel a b = b\<lparr>angvel := a\<rparr>"

definition setLinearDamping :: "real \<Rightarrow> body \<Rightarrow> body" where
  "setLinearDamping d b = b\<lparr>linearDamping := d\<rparr>"

definition setAngularDamping :: "real \<Rightarrow> body \<Rightarrow> body" where
  "setAngularDamping d b = b\<lparr>angularDamping := d\<rparr>"

text \<open>\<^verbatim>\<open>PhysicsWorld.createDynamicBody\<close>. A new body is at rest and unrotated.\<close>

definition createDynamicBody ::
  "real \<Rightarrow> real \<Rightarrow> real \<Rightarrow> real \<Rightarrow> real \<Rightarrow> bool \<Rightarrow> collision_filter \<Rightarrow> body" where
  "createDynamicBody x y width height dens isRound collisionFilter =
     \<lparr>translation = (x, y), rotation = 0, linvel = (0, 0), angvel = 0,
      linearDamping = LINEAR_DAMPING, angularDamping = ANGULAR_DAMPING,
      impulses = [],
      shape = (if isRound then Capsule (height / 2 - width / 2) (width / 2)
               else Cuboid (width / 2) (height / 2)),
      density = dens,
      collisionGroups = push_bit 16 (memberships collisionFilter) OR filter_mask collisionFilter\<rparr>"

text \<open>
  The motor of a joint, as the last command left it. \<open>Disabled\<close> is a joint that never
  received a motor command; \<^verbatim>\<open>configureMotorVelocity(v, f)\<close> leaves \<open>VelocityDrive v f\<close> and
  \<^verbatim>\<open>configureMotorPosition(a, s, d)\<close> leaves \<open>PositionHold a s d\<close>.
\<close>

datatype motor_state =
  Disabled
  | VelocityDrive real real
  | PositionHold real real real

record joint =
  anchorA :: vec
  anchorB :: vec
  limits :: "real \<times> real"
  limitsEnabled :: bool
  motor :: motor_state

definition configureMotorVelocity :: "real \<Rightarrow> real \<Rightarrow> joint \<Rightarrow> joint" where
  "configureMotorVelocity targetVel factor j = j\<lparr>motor := VelocityDrive targetVel factor\<rparr>"

definition configureMotorPosition :: "real \<Rightarrow> real \<Rightarrow> real \<Rightarrow> joint \<Rightarrow> joint" where
  "configureMotorPosition targetPos stiffness damping j =
     j\<lparr>motor := PositionHold targetPos stiffness damping\<rparr>"

text \<open>The \<^verbatim>\<open>limits\<close> object a caller passes to \<^verbatim>\<open>createRevoluteJoint\<close>.\<close>

record limits_arg =
  lim_min :: real
  lim_max :: real
  lim_REST_ANGLE :: "real option"
  lim_STIFFNESS :: "real option"
  lim_DAMPING :: "real option"

text \<open>
  \<^verbatim>\<open>PhysicsWorld.createRevoluteJoint\<close>. \<open>engineOk\<close> says that the world exists and that the
  engine's \<^verbatim>\<open>createImpulseJoint\<close> does not throw; a missing body or a failing engine gives
  \<^verbatim>\<open>null\<close>, here \<open>None\<close>. The two bodies are only tested for presence.
\<close>

definition createRevoluteJoint ::
  "bool \<Rightarrow> body option \<Rightarrow> body option \<Rightarrow> vec \<Rightarrow> vec \<Rightarrow> limits_arg \<Rightarrow> bool \<Rightarrow> joint option" where
  "createRevoluteJoint engineOk bodyA bodyB anchA anchB lims isKnee =
     (if bodyA = None \<or> bodyB = None then None
      else if \<not> engineOk then None
      else
        let j = \<lparr>anchorA = anchA, anchorB = anchB,
                 limits = (min (lim_min lims) (lim_max lims), max (lim_min lims) (lim_max lims)),
                 limitsEnabled = True, motor = Disabled\<rparr>
        in if isKnee then
             (case (lim_REST_ANGLE lims, lim_STIFFNESS lims, lim_DAMPING lims) of
                (Some r, Some s, Some d) \<Rightarrow>
                  Some (configureMotorPosition r (s * (15 / 10)) (d * (15 / 10)) j)
              | _ \<Rightarrow> Some j)
           else Some j)"

subsection \<open>character.js: the character and its skeleton\<close>

datatype body_name =
  Torso | LeftArm | RightArm | LeftThigh | RightThigh | LeftCalf | RightCalf
  | LeftFoot | RightFoot

datatype joint_name =
  LeftShoulder | RightShoulder | LeftHip | RightHip | LeftKnee | RightKnee
  | LeftAnkle | RightAnkle

text \<open>The two callbacks \<^verbatim>\<open>stabilizeJoints\<close> hands to \<^verbatim>\<open>setTimeout\<close>.\<close>

datatype timer_cb = ReduceDamping | NormalDamping

text \<open>
  \<open>bodies\<close> and \<open>joints\<close> are the property bags \<^verbatim>\<open>this.bodies\<close> and \<^verbatim>\<open>this.joints\<close>; a
  property that is unset or \<^verbatim>\<open>null\<close> is \<open>None\<close>. \<open>timers\<close> holds the callbacks scheduled
  with \<^verbatim>\<open>setTimeout\<close> that did not fire yet, each with the time it is due.
\<close>

record character =
  bodies :: "body_name \<Rightarrow> body option"
  joints :: "joint_name \<Rightarrow> joint option"
  impulseTimer :: real
  impulseInterval :: real
  lastTimestamp :: real
  timers :: "(real \<times> timer_cb) list"

text \<open>The constructor, called when the clock reads \<open>now\<close>.\<close>

definition newCharacter :: "real \<Rightarrow> character" where
  "newCharacter now =
     \<lparr>bodies = (\<lambda>n. None), joints = (\<lambda>n. None), impulseTimer = 0, impulseInterval = 80,
      lastTimestamp = now, timers = []\<rparr>"

text \<open>\<^verbatim>\<open>Object.values(this.bodies).forEach(...)\<close>: every body that is there.\<close>

definition forEachBody :: "(body \<Rightarrow> body) \<Rightarrow> (body_name \<Rightarrow> body option) \<Rightarrow> body_name \<Rightarrow> body option" where
  "forEachBody f bs = (\<lambda>n. map_option f (bs n))"

definition createPhysicsBodies :: "character \<Rightarrow> character" where
  "createPhysicsBodies c =
     (let x = fst INITIAL_POSITION; y = snd INITIAL_POSITION;
          hipOffsetY = - (3 / 10);
          thighXOffset = 0; thighYOffset = THIGH_HEIGHT / 2;
          leftKneeX = x - TORSO_WIDTH / 4 + 2 * thighXOffset;
          leftKneeY = y + hipOffsetY - 2 * thighYOffset;
          rightKneeX = x + TORSO_WIDTH / 4 + 2 * thighXOffset;
          rightKneeY = y + hipOffsetY - 2 * thighYOffset;
          calfXOffset = 0; calfYOffset = CALF_HEIGHT / 2;
          leftAnkleX = leftKneeX + 2 * calfXOffset;
          leftAnkleY = leftKneeY - 2 * calfYOffset;
          rightAnkleX = rightKneeX + 2 * calfXOffset;
          rightAnkleY = rightKneeY - 2 * calfYOffset;
          footXOffset = 5 / 100
      in c\<lparr>bodies := (bodies c)
           (Torso := Some (createDynamicBody x y TORSO_WIDTH TORSO_HEIGHT TORSO_DENSITY
                             False FILTER_TORSO),
            LeftArm := Some (createDynamicBody (x - TORSO_WIDTH / 2 - ARM_WIDTH / 2)
                             (y + TORSO_HEIGHT / 4) ARM_WIDTH ARM_HEIGHT ARM_DENSITY
                             True FILTER_LEFT_LEG),
            RightArm := Some (createDynamicBody (x + TORSO_WIDTH / 2 + ARM_WIDTH / 2)
                             (y + TORSO_HEIGHT / 4) ARM_WIDTH ARM_HEIGHT ARM_DENSITY
                             True FILTER_RIGHT_LEG),
            LeftThigh := Some (createDynamicBody (x - TORSO_WIDTH / 4 + thighXOffset)
                             (y + hipOffsetY - thighYOffset) THIGH_WIDTH THIGH_HEIGHT
                             THIGH_DENSITY True FILTER_LEFT_LEG),
            RightThigh := Some (createDynamicBody (x + TORSO_WIDTH / 4 + thighXOffset)
                             (y + hipOffsetY - thighYOffset) THIGH_WIDTH THIGH_HEIGHT
                             THIGH_DENSITY True FILTER_RIGHT_LEG),
            LeftCalf := Some (createDynamicBody (leftKneeX + calfXOffset)
                             (leftKneeY - calfYOffset) CALF_WIDTH CALF_HEIGHT CALF_DENSITY
                             True FILTER_LEFT_LEG),
            RightCalf := Some (createDynamicBody (rightKneeX + calfXOffset)
                             (rightKneeY - calfYOffset) CALF_WIDTH CALF_HEIGHT CALF_DENSITY
                             True FILTER_RIGHT_LEG),
            LeftFoot := Some (createDynamicBody (leftAnkleX + footXOffset)
                             (leftAnkleY - FOOT_HEIGHT / 2) FOOT_WIDTH FOOT_HEIGHT FOOT_DENSITY
                             False FILTER_LEFT_LEG),
            RightFoot := Some (createDynamicBody (rightAnkleX + footXOffset)
                             (rightAnkleY - FOOT_HEIGHT / 2) FOOT_WIDTH FOOT_HEIGHT FOOT_DENSITY
                             False FILTER_RIGHT_LEG))\<rparr>)"

definition plainLimits :: "real \<Rightarrow> real \<Rightarrow> limits_arg" where
  "plainLimits lo hi =
     \<lparr>lim_min = lo, lim_max = hi, lim_REST_ANGLE = None, lim_STIFFNESS = None,
      lim_DAMPING = None\<rparr>"

definition shoulderLimits :: limits_arg where
  "shoulderLimits =
     \<lparr>lim_min = SHOULDER_MIN_ANGLE, lim_max = SHOULDER_MAX_ANGLE,
      lim_REST_ANGLE = Some SHOULDER_REST_ANGLE, lim_STIFFNESS = Some SHOULDER_STIFFNESS,
      lim_DAMPING = Some SHOULDER_DAMPING\<rparr>"

text \<open>
  \<^verbatim>\<open>createJoints\<close>. \<open>engineOk n\<close> says whether the engine builds joint \<open>n\<close> when asked to.
\<close>

definition createJoints :: "(joint_name \<Rightarrow> bool) \<Rightarrow> character \<Rightarrow> character" where
  "createJoints engineOk c =
     (let bs = bodies c;
          torsoShoulderAnchorLeft = (- TORSO_WIDTH / 2, TORSO_HEIGHT / 3);
          torsoShoulderAnchorRight = (TORSO_WIDTH / 2, TORSO_HEIGHT / 3);
          armShoulderAnchor = (0, ARM_HEIGHT / 2 - 5 / 100);
          torsoHipAnchorLeft = (- TORSO_WIDTH / 4, - TORSO_HEIGHT / 2 + 5 / 100);
          torsoHipAnchorRight = (TORSO_WIDTH / 4, - TORSO_HEIGHT / 2 + 5 / 100);
          thighHipAnchor = (0, THIGH_HEIGHT / 2 - 5 / 100);
          thighKneeAnchor = (0, - THIGH_HEIGHT / 2 + 5 / 100);
          calfKneeAnchor = (0, CALF_HEIGHT / 2 - 5 / 100);
          calfAnkleAnchor = (0, - CALF_HEIGHT / 2 + 5 / 100);
          footAnkleAnchor = (- FOOT_WIDTH / 3, 0)
      in c\<lparr>joints := (joints c)
           (LeftShoulder := createRevoluteJoint (engineOk LeftShoulder) (bs Torso) (bs LeftArm)
              torsoShoulderAnchorLeft armShoulderAnchor shoulderLimits False,
            RightShoulder := createRevoluteJoint (engineOk RightShoulder) (bs Torso) (bs RightArm)
              torsoShoulderAnchorRight armShoulderAnchor shoulderLimits False,
            LeftHip := createRevoluteJoint (engineOk LeftHip) (bs Torso) (bs LeftThigh)
              torsoHipAnchorLeft thighHipAnchor (plainLimits HIP_MIN_ANGLE HIP_MAX_ANGLE) False,
            RightHip := createRevoluteJoint (engineOk RightHip) (bs Torso) (bs RightThigh)
              torsoHipAnchorRight thighHipAnchor (plainLimits HIP_MIN_ANGLE HIP_MAX_ANGLE) False,
            LeftKnee := createRevoluteJoint (engineOk LeftKnee) (bs LeftThigh) (bs LeftCalf)
              thighKneeAnchor calfKneeAnchor (plainLimits KNEE_MIN_ANGLE KNEE_MAX_ANGLE) True,
            RightKnee := createRevoluteJoint (engineOk RightKnee) (bs RightThigh) (bs RightCalf)
              thighKneeAnchor calfKneeAnchor (plainLimits KNEE_MIN_ANGLE KNEE_MAX_ANGLE) True,
            LeftAnkle := createRevoluteJoint (engineOk LeftAnkle) (bs LeftCalf) (bs LeftFoot)
              calfAnkleAnchor footAnkleAnchor (plainLimits ANKLE_MIN_ANGLE ANKLE_MAX_ANGLE) False,
            RightAnkle := createRevoluteJoint (engineOk RightAnkle) (bs RightCalf) (bs RightFoot)
              calfAnkleAnchor footAnkleAnchor (plainLimits ANKLE_MIN_ANGLE ANKLE_MAX_ANGLE)
              False)\<rparr>)"

subsection \<open>character.js: motors and player control\<close>

text \<open>
  \<^verbatim>\<open>disableJointMotor\<close> and \<^verbatim>\<open>applyJointMotor\<close> take a joint that may be \<^verbatim>\<open>null\<close> and
  return at once when it is; the result is the joint after the call. A joint that the
  engine built has both motor methods, so the program's tests for them succeed on every
  joint that is not \<^verbatim>\<open>null\<close>, and the engine's motor calls do not throw.
\<close>

definition disableJointMotor :: "joint option \<Rightarrow> joint option" where
  "disableJointMotor j =
     (case j of None \<Rightarrow> None | Some jt \<Rightarrow> Some (configureMotorVelocity 0 (1 / 10) jt))"

definition applyJointMotor :: "joint option \<Rightarrow> real \<Rightarrow> real \<Rightarrow> joint option" where
  "applyJointMotor j targetVelocity maxForce =
     (case j of None \<Rightarrow> None
      | Some jt \<Rightarrow> Some (configureMotorVelocity targetVelocity maxForce jt))"

text \<open>
  The two thigh blocks of \<^verbatim>\<open>applyQWOPControls\<close> (keys Q and W) are the same code on
  different names, and so are the two knee blocks (keys O and P).
\<close>

definition thighControl ::
  "key \<Rightarrow> joint_name \<Rightarrow> body_name \<Rightarrow> inputHandler \<Rightarrow> bool \<Rightarrow> character \<Rightarrow> character" where
  "thighControl k hip thigh inputH shouldApplyImpulse c =
     (if isKeyPressed inputH k then
        let c1 = c\<lparr>joints := (joints c)
                   (hip := applyJointMotor (joints c hip) MAX_MOTOR_VELOCITY
                             JOINT_MOTOR_MAX_FORCE)\<rparr>
        in if bodies c1 thigh \<noteq> None \<and> shouldApplyImpulse
           then c1\<lparr>bodies := (bodies c1)
                     (thigh := map_option (applyImpulse (1 / 10, 2 / 10)) (bodies c1 thigh))\<rparr>
           else c1
      else c\<lparr>joints := (joints c)(hip := disableJointMotor (joints c hip))\<rparr>)"

definition kneeControl ::
  "key \<Rightarrow> joint_name \<Rightarrow> body_name \<Rightarrow> inputHandler \<Rightarrow> bool \<Rightarrow> character \<Rightarrow> character" where
  "kneeControl k knee calf inputH shouldApplyImpulse c =
     (if isKeyPressed inputH k then
        let c1 = c\<lparr>joints := (joints c)
                   (knee := applyJointMotor (joints c knee) (- MAX_MOTOR_VELOCITY)
                              JOINT_MOTOR_MAX_FORCE)\<rparr>
        in if bodies c1 calf \<noteq> None \<and> shouldApplyImpulse
           then c1\<lparr>bodies := (bodies c1)
                     (calf := map_option (applyImpulse (1 / 10, 2 / 10)) (bodies c1 calf))\<rparr>
           else c1
      else
        (case joints c knee of
           Some jt \<Rightarrow>
             c\<lparr>joints := (joints c)
                  (knee := Some (configureMotorPosition KNEE_REST_ANGLE (KNEE_STIFFNESS * 2)
                                   (KNEE_DAMPING * 2) jt))\<rparr>
         | None \<Rightarrow> c\<lparr>joints := (joints c)(knee := disableJointMotor (joints c knee))\<rparr>))"

definition applyQWOPControls :: "inputHandler \<Rightarrow> bool \<Rightarrow> character \<Rightarrow> character" where
  "applyQWOPControls inputH shouldApplyImpulse c =
     kneeControl KeyP RightKnee RightCalf inputH shouldApplyImpulse
       (kneeControl KeyO LeftKnee LeftCalf inputH shouldApplyImpulse
          (thighControl KeyW RightHip RightThigh inputH shouldApplyImpulse
             (thighControl KeyQ LeftHip LeftThigh inputH shouldApplyImpulse c)))"

subsection \<open>character.js: arm balancing\<close>

definition leftArmTargetAngle :: "real \<Rightarrow> real \<Rightarrow> real" where
  "leftArmTargetAngle torsoRotation torsoAngularVel =
     (- 3) * torsoRotation + (- 2) * torsoAngularVel + SHOULDER_REST_ANGLE"

definition rightArmTargetAngle :: "real \<Rightarrow> real \<Rightarrow> real" where
  "rightArmTargetAngle torsoRotation torsoAngularVel =
     (- 3) * torsoRotation + (- 2) * torsoAngularVel + SHOULDER_REST_ANGLE"

definition applyArmBalancing :: "character \<Rightarrow> character" where
  "applyArmBalancing c =
     (case (bodies c Torso, bodies c LeftArm, bodies c RightArm,
            joints c LeftShoulder, joints c RightShoulder) of
        (Some torso, Some leftArm, Some rightArm, Some leftShoulder, Some rightShoulder) \<Rightarrow>
          let shouldApplyImpulse = (impulseTimer c = 0);
              torsoRotation = rotation torso;
              torsoAngularVel = angvel torso;
              balanceStiffness = SHOULDER_STIFFNESS * 2;
              balanceDamping = SHOULDER_DAMPING * (15 / 10);
              c1 = c\<lparr>joints := (joints c)
                     (LeftShoulder := Some (configureMotorPosition
                        (leftArmTargetAngle torsoRotation torsoAngularVel)
                        balanceStiffness balanceDamping leftShoulder),
                      RightShoulder := Some (configureMotorPosition
                        (rightArmTargetAngle torsoRotation torsoAngularVel)
                        balanceStiffness balanceDamping rightShoulder))\<rparr>
          in (case (bodies c LeftThigh, bodies c RightThigh) of
                (Some leftThigh, Some rightThigh) \<Rightarrow>
                  let leftThighRelativeX = fst (translation leftThigh) - fst (translation torso);
                      rightThighRelativeX = fst (translation rightThigh) - fst (translation torso)
                  in if leftThighRelativeX > rightThighRelativeX \<and> shouldApplyImpulse then
                       c1\<lparr>bodies := (bodies c1)
                            (RightArm := Some (applyImpulse (1 / 10, 0) rightArm),
                             LeftArm := Some (applyImpulse (- (5 / 100), 0) leftArm))\<rparr>
                     else if rightThighRelativeX > leftThighRelativeX \<and> shouldApplyImpulse then
                       c1\<lparr>bodies := (bodies c1)
                            (LeftArm := Some (applyImpulse (1 / 10, 0) leftArm),
                             RightArm := Some (applyImpulse (- (5 / 100), 0) rightArm))\<rparr>
                     else c1
              | _ \<Rightarrow> c1)
      | _ \<Rightarrow> c)"

text \<open>\<^verbatim>\<open>applyInputForces\<close>; \<open>currentTime\<close> is what \<^verbatim>\<open>performance.now()\<close> returns.\<close>

definition applyInputForces :: "real \<Rightarrow> inputHandler \<Rightarrow> character \<Rightarrow> character" where
  "applyInputForces currentTime inputH c =
     (if joints c LeftHip = None \<or> joints c RightHip = None
         \<or> joints c LeftKnee = None \<or> joints c RightKnee = None
      then c
      else
        let deltaTime = currentTime - lastTimestamp c;
            timer = impulseTimer c + deltaTime;
            shouldApplyImpulse = (timer \<ge> impulseInterval c);
            c1 = c\<lparr>lastTimestamp := currentTime,
                   impulseTimer := (if shouldApplyImpulse then 0 else timer)\<rparr>
        in applyArmBalancing (applyQWOPControls inputH shouldApplyImpulse c1))"

subsection \<open>character.js: the fall detector\<close>

definition torsoHeadOffset :: real where
  "torsoHeadOffset = TORSO_HEIGHT / 2 + 1 / 10"

definition headRadius :: real where
  "headRadius = 15 / 100"

definition headX :: "vec \<Rightarrow> real \<Rightarrow> real" where
  "headX torsoPosition torsoRotation = fst torsoPosition - sin torsoRotation * torsoHeadOffset"

definition headY :: "vec \<Rightarrow> real \<Rightarrow> real" where
  "headY torsoPosition torsoRotation = snd torsoPosition + cos torsoRotation * torsoHeadOffset"

definition isHeadTouchingGround :: "character \<Rightarrow> bool" where
  "isHeadTouchingGround c =
     (case bodies c Torso of
        None \<Rightarrow> False
      | Some torso \<Rightarrow>
          headY (translation torso) (rotation torso) - headRadius \<le> HEAD_GROUND_THRESHOLD)"

subsection \<open>character.js: stabilisation, reset and the timers\<close>

text \<open>
  The body of \<^verbatim>\<open>stabilizeJoints\<close> runs inside \<^verbatim>\<open>try\<close>: a call on a joint that is \<^verbatim>\<open>null\<close>
  throws, the \<^verbatim>\<open>catch\<close> logs it, and what was done before the throw stays done. A block
  returns \<open>Inr\<close> with the state to go on from, or \<open>Inl\<close> with the state at the throw.
  \<open>holdPair a b\<close> is \<^verbatim>\<open>a.configureMotorPosition(...); b.configureMotorPosition(...)\<close> for a
  joint \<open>a\<close> the caller knows to be there.
\<close>

definition holdPair ::
  "joint_name \<Rightarrow> joint_name \<Rightarrow> real \<Rightarrow> real \<Rightarrow> real \<Rightarrow> character \<Rightarrow> character + character" where
  "holdPair a b angle stiffness damping c =
     (let c1 = c\<lparr>joints := (joints c)
                 (a := map_option (configureMotorPosition angle stiffness damping) (joints c a))\<rparr>
      in case joints c1 b of
           None \<Rightarrow> Inl c1
         | Some jb \<Rightarrow>
             Inr (c1\<lparr>joints := (joints c1)
                       (b := Some (configureMotorPosition angle stiffness damping jb))\<rparr>))"

definition stabilizeShoulders :: "real \<Rightarrow> real \<Rightarrow> character \<Rightarrow> character + character" where
  "stabilizeShoulders stiffness damping c =
     (if joints c LeftShoulder \<noteq> None
      then holdPair LeftShoulder RightShoulder SHOULDER_REST_ANGLE stiffness damping c
      else Inr c)"

definition stabilizeHips :: "real \<Rightarrow> real \<Rightarrow> character \<Rightarrow> character + character" where
  "stabilizeHips stiffness damping c =
     (if joints c LeftHip = None then Inl c
      else holdPair LeftHip RightHip 0 stiffness damping c)"

definition stabilizeKnees :: "real \<Rightarrow> real \<Rightarrow> character \<Rightarrow> character + character" where
  "stabilizeKnees stiffness damping c =
     (if joints c LeftKnee = None then Inl c
      else let kneeRestAngle = - (5 / 100)
           in holdPair LeftKnee RightKnee kneeRestAngle stiffness damping c)"

text \<open>
  The rest of the \<^verbatim>\<open>try\<close> block: damping on every body, more on the torso, the upward
  impulse on the torso, and the first \<^verbatim>\<open>setTimeout\<close>, 500 ms from \<open>now\<close>.
\<close>

definition stabilizeBodies :: "real \<Rightarrow> character \<Rightarrow> character" where
  "stabilizeBodies now c =
     (let bs1 = forEachBody (\<lambda>b. setAngularDamping (8 / 10) (setLinearDamping (8 / 10) b))
                  (bodies c);
          bs2 = bs1(Torso := map_option (\<lambda>b. setAngularDamping 1 (setLinearDamping 1 b))
                               (bs1 Torso));
          bs3 = bs2(Torso := map_option (applyImpulse (0, 15 / 10)) (bs2 Torso))
      in c\<lparr>bodies := bs3, timers := timers c @ [(now + 500, ReduceDamping)]\<rparr>)"

definition stabilizeJoints :: "real \<Rightarrow> character \<Rightarrow> character" where
  "stabilizeJoints now c =
     (let stiffness = INITIAL_STIFFNESS; damping = INITIAL_DAMPING
      in case stabilizeShoulders stiffness damping c of
           Inl thrown \<Rightarrow> thrown
         | Inr c1 \<Rightarrow>
             (case stabilizeHips stiffness damping c1 of
                Inl thrown \<Rightarrow> thrown
              | Inr c2 \<Rightarrow>
                  (case stabilizeKnees stiffness damping c2 of
                     Inl thrown \<Rightarrow> thrown
                   | Inr c3 \<Rightarrow> stabilizeBodies now c3)))"

text \<open>The timer callbacks, run when the clock reads \<open>now\<close>.\<close>

fun runCallback :: "real \<Rightarrow> timer_cb \<Rightarrow> character \<Rightarrow> character" where
  "runCallback now ReduceDamping c =
     c\<lparr>bodies := forEachBody (\<lambda>b. setAngularDamping (5 / 10) (setLinearDamping (5 / 10) b))
                   (bodies c),
       timers := timers c @ [(now + 500, NormalDamping)]\<rparr>"
| "runCallback now NormalDamping c =
     c\<lparr>bodies := forEachBody
                   (\<lambda>b. setAngularDamping ANGULAR_DAMPING (setLinearDamping LINEAR_DAMPING b))
                   (bodies c)\<rparr>"

text \<open>
  The host's timer queue when the clock reads \<open>now\<close>: every pending callback that is due
  runs, in the order it was scheduled.
\<close>

definition fireTimers :: "real \<Rightarrow> character \<Rightarrow> character" where
  "fireTimers now c =
     fold (\<lambda>t. runCallback now (snd t)) (filter (\<lambda>t. fst t \<le> now) (timers c))
       (c\<lparr>timers := filter (\<lambda>t. \<not> fst t \<le> now) (timers c)\<rparr>)"

text \<open>The \<^verbatim>\<open>forEach\<close> of \<^verbatim>\<open>reset\<close> that sets every velocity to zero.\<close>

definition resetVelocities :: "character \<Rightarrow> character" where
  "resetVelocities c =
     c\<lparr>bodies := forEachBody (\<lambda>b. setAngvel 0 (setLinvel (0, 0) b)) (bodies c)\<rparr>"

text \<open>
  \<^verbatim>\<open>reset\<close> up to its last statement: new bodies, every velocity set to zero, new joints.
  The last statement is the call of \<^verbatim>\<open>stabilizeJoints\<close>. \<^verbatim>\<open>init\<close> does the same without the
  \<^verbatim>\<open>forEach\<close>.
\<close>

definition rebuild :: "(joint_name \<Rightarrow> bool) \<Rightarrow> character \<Rightarrow> character" where
  "rebuild engineOk c = createJoints engineOk (resetVelocities (createPhysicsBodies c))"

definition reset :: "(joint_name \<Rightarrow> bool) \<Rightarrow> real \<Rightarrow> character \<Rightarrow> character" where
  "reset engineOk now c = stabilizeJoints now (rebuild engineOk c)"

definition init :: "(joint_name \<Rightarrow> bool) \<Rightarrow> real \<Rightarrow> character \<Rightarrow> character" where
  "init engineOk now c = stabilizeJoints now (createJoints engineOk (createPhysicsBodies c))"

subsection \<open>game.js\<close>

text \<open>
  What \<^verbatim>\<open>world.step()\<close> leaves in a body: the engine's result, an input of the model.
\<close>

record kinematics =
  newTranslation :: vec
  newRotation :: real
  newLinvel :: vec
  newAngvel :: real

definition worldStep :: "(body_name \<Rightarrow> kinematics) \<Rightarrow> character \<Rightarrow> character" where
  "worldStep result c =
     c\<lparr>bodies := (\<lambda>n. map_option
         (\<lambda>b. b\<lparr>translation := newTranslation (result n), rotation := newRotation (result n),
                linvel := newLinvel (result n), angvel := newAngvel (result n)\<rparr>)
         (bodies c n))\<rparr>"

text \<open>
  One call of \<^verbatim>\<open>Game.update\<close> has three inputs: the clock, the keys that are down and the
  engine's result.
\<close>

record frame =
  clock :: real
  input :: inputHandler
  outcome :: "body_name \<Rightarrow> kinematics"

text \<open>
  \<open>scoreUpdates\<close> lists the arguments of the \<^verbatim>\<open>ui.updateScore\<close> calls and \<open>gameOverShown\<close>
  those of the \<^verbatim>\<open>ui.showGameOver\<close> calls, oldest first; \<open>startTimers\<close> holds the due times
  of the pending callbacks of \<^verbatim>\<open>Game.start\<close>. What such a callback does when it fires, one
  more push on the torso, plays no part in the properties below and is not modelled.
\<close>

record game =
  character :: character
  gameState :: game_state
  maxDistance :: real
  scoreUpdates :: "real list"
  gameOverShown :: "real list"
  startTimers :: "real list"

datatype error = TypeError

text \<open>\<^verbatim>\<open>getPosition\<close> reads \<^verbatim>\<open>this.bodies.torso.translation()\<close>: it throws without a torso.\<close>

definition getPosition :: "character \<Rightarrow> error + vec" where
  "getPosition c =
     (case bodies c Torso of None \<Rightarrow> Inl TypeError | Some torso \<Rightarrow> Inr (translation torso))"

definition checkGameOver :: "game \<Rightarrow> bool" where
  "checkGameOver g = isHeadTouchingGround (character g)"

definition gameOver :: "game \<Rightarrow> game" where
  "gameOver g = g\<lparr>gameState := GAME_OVER, gameOverShown := gameOverShown g @ [maxDistance g]\<rparr>"

text \<open>The character's part of an update: \<^verbatim>\<open>applyInputForces\<close>, then \<^verbatim>\<open>physics.step()\<close>.\<close>

definition controlStep :: "frame \<Rightarrow> character \<Rightarrow> character" where
  "controlStep fr c = worldStep (outcome fr) (applyInputForces (clock fr) (input fr) c)"

definition update :: "frame \<Rightarrow> game \<Rightarrow> error + game" where
  "update fr g =
     (if gameState g \<noteq> PLAYING then Inr g
      else
        let g1 = g\<lparr>character := controlStep fr (character g)\<rparr>
        in if checkGameOver g1 then Inr (gameOver g1)
           else
             (case getPosition (character g1) of
                Inl e \<Rightarrow> Inl e
              | Inr position \<Rightarrow>
                  if fst position > maxDistance g1
                  then Inr (g1\<lparr>maxDistance := fst position,
                               scoreUpdates := scoreUpdates g1 @ [fst position]\<rparr>)
                  else Inr g1))"

text \<open>\<^verbatim>\<open>Game.start\<close>, called when the clock reads \<open>now\<close>.\<close>

definition start :: "(joint_name \<Rightarrow> bool) \<Rightarrow> real \<Rightarrow> game \<Rightarrow> game" where
  "start engineOk now g =
     g\<lparr>gameState := PLAYING, maxDistance := 0,
       character := reset engineOk now (character g),
       startTimers := startTimers g @ [now + 100],
       scoreUpdates := scoreUpdates g @ [0]\<rparr>"

text \<open>Successive calls of \<^verbatim>\<open>update\<close>; a throw ends them.\<close>

fun run :: "frame list \<Rightarrow> game \<Rightarrow> error + game" where
  "run [] g = Inr g"
| "run (fr # frs) g = (case update fr g of Inl e \<Rightarrow> Inl e | Inr g' \<Rightarrow> run frs g')"

text \<open>The character's part of successive updates of a run that goes on.\<close>

definition simulate :: "frame list \<Rightarrow> character \<Rightarrow> character" where
  "simulate frs c = fold controlStep frs c"

subsection \<open>Concrete inputs\<close>

definition everyJointCreated :: "joint_name \<Rightarrow> bool" where
  "everyJointCreated n = True"

definition leftHipFails :: "joint_name \<Rightarrow> bool" where
  "leftHipFails n = (n \<noteq> LeftHip)"

definition leftShoulderFails :: "joint_name \<Rightarrow> bool" where
  "leftShoulderFails n = (n \<noteq> LeftShoulder)"

definition noKeys :: inputHandler where
  "noKeys k = False"

definition holdQ :: inputHandler where
  "holdQ k = (k = KeyQ)"

definition holdW :: inputHandler where
  "holdW k = (k = KeyW)"

text \<open>The character as \<^verbatim>\<open>Game.init\<close> leaves it when the clock reads 0.\<close>

definition standing :: character where
  "standing = init everyJointCreated 0 (newCharacter 0)"

text \<open>
  Engine results: every body at the spawn point and turned by one radian, the torso leaning
  forward; and every body at the spawn point, upright, with the left thigh a little ahead.
\<close>

definition leaningForward :: "body_name \<Rightarrow> kinematics" where
  "leaningForward n =
     \<lparr>newTranslation = (0, - (35 / 10)), newRotation = - 1, newLinvel = (0, 0), newAngvel = 0\<rparr>"

definition leftLegAhead :: "body_name \<Rightarrow> kinematics" where
  "leftLegAhead n =
     \<lparr>newTranslation = (if n = LeftThigh then 1 / 10 else 0, - (35 / 10)), newRotation = 0,
      newLinvel = (0, 0), newAngvel = 0\<rparr>"

text \<open>Q held at every frame, and an engine that leaves every body at rest at the spawn point.\<close>

definition alwaysQ :: "nat \<Rightarrow> inputHandler" where
  "alwaysQ i = holdQ"

definition restingWorld :: "nat \<Rightarrow> body_name \<Rightarrow> kinematics" where
  "restingWorld i n =
     \<lparr>newTranslation = INITIAL_POSITION, newRotation = 0, newLinvel = (0, 0), newAngvel = 0\<rparr>"

text \<open>The character as \<^verbatim>\<open>init\<close> leaves it when the engine fails to build the left hip.\<close>

definition hipless :: character where
  "hipless = init leftHipFails 0 (newCharacter 0)"

text \<open>The same when it is the left shoulder that the engine fails to build.\<close>

definition shoulderless :: character where
  "shoulderless = init leftShoulderFails 0 (newCharacter 0)"

text \<open>The game as \<^verbatim>\<open>Game.init\<close> leaves it when the clock reads 0.\<close>

definition menuGame :: game where
  "menuGame =
     \<lparr>character = standing, gameState = MAIN_MENU, maxDistance = 0, scoreUpdates = [],
      gameOverShown = [], startTimers = []\<rparr>"

text \<open>
  Two engine results and the frames that carry them: the torso upright one unit ahead of the
  spawn point; and the torso two units ahead, upside down and low, so that the head is on
  the ground.
\<close>

definition strideWorld :: "body_name \<Rightarrow> kinematics" where
  "strideWorld n =
     \<lparr>newTranslation = (1, - (35 / 10)), newRotation = 0, newLinvel = (0, 0), newAngvel = 0\<rparr>"

definition fallWorld :: "body_name \<Rightarrow> kinematics" where
  "fallWorld n =
     \<lparr>newTranslation = (2, - (43 / 10)), newRotation = pi, newLinvel = (0, 0), newAngvel = 0\<rparr>"

definition strideFrame :: frame where
  "strideFrame = \<lparr>clock = 16, input = holdQ, outcome = strideWorld\<rparr>"

definition fallFrame :: frame where
  "fallFrame = \<lparr>clock = 32, input = holdQ, outcome = fallWorld\<rparr>"

subsection \<open>Notions used in the properties\<close>

text \<open>The number of impulses a body has received since it was created.\<close>

definition kicks :: "body_name \<Rightarrow> character \<Rightarrow> nat" where
  "kicks n c = (case bodies c n of None \<Rightarrow> 0 | Some b \<Rightarrow> length (impulses b))"

text \<open>
  How often the impulse gate of \<^verbatim>\<open>applyInputForces\<close> opens over successive clock readings,
  from a given timer value and previous reading: the timer lines of that function on their
  own.
\<close>

fun gateCount :: "real \<Rightarrow> real \<Rightarrow> real \<Rightarrow> real list \<Rightarrow> nat" where
  "gateCount interval timer prev [] = 0"
| "gateCount interval timer prev (t # ts) =
     (if timer + (t - prev) \<ge> interval then Suc (gateCount interval 0 t ts)
      else gateCount interval (timer + (t - prev)) t ts)"

text \<open>
  \<open>n\<close> frames at a fixed rate: the clock advances by \<open>d\<close> from one to the next, starting
  \<open>d\<close> after \<open>t\<close>; keys and engine results are free.
\<close>

fun steadyFrames ::
  "real \<Rightarrow> real \<Rightarrow> (nat \<Rightarrow> inputHandler) \<Rightarrow> (nat \<Rightarrow> body_name \<Rightarrow> kinematics) \<Rightarrow> nat \<Rightarrow> frame list" where
  "steadyFrames t d inp w 0 = []"
| "steadyFrames t d inp w (Suc n) =
     \<lparr>clock = t + d, input = inp n, outcome = w n\<rparr> # steadyFrames (t + d) d inp w n"

text \<open>
  Frames as \<^verbatim>\<open>gameLoop\<close> issues them when the host renders at half the step rate: two
  updates at each clock reading, the readings \<open>d\<close> apart, with Q held and the engine
  leaving every body at rest.
\<close>

fun burstFrames :: "real \<Rightarrow> real \<Rightarrow> nat \<Rightarrow> frame list" where
  "burstFrames t d 0 = []"
| "burstFrames t d (Suc n) =
     \<lparr>clock = t + d, input = holdQ, outcome = restingWorld 0\<rparr>
       # \<lparr>clock = t + d, input = holdQ, outcome = restingWorld 0\<rparr>
       # burstFrames (t + d) d n"

text \<open>
  \<^verbatim>\<open>stabilizeJoints\<close> runs to its end, without a throw, exactly when the right shoulder is
  there if the left one is, and both hips and both knees are there.
\<close>

definition stabilizes :: "character \<Rightarrow> bool" where
  "stabilizes c =
     ((if joints c LeftShoulder \<noteq> None then joints c RightShoulder \<noteq> None else True)
      \<and> joints c LeftHip \<noteq> None \<and> joints c RightHip \<noteq> None
      \<and> joints c LeftKnee \<noteq> None \<and> joints c RightKnee \<noteq> None)"

text \<open>
  What an update reads after the engine's step of a frame: the torso's x position, and
  whether the head is on the ground.
\<close>

definition torsoXAfter :: "frame \<Rightarrow> real" where
  "torsoXAfter fr = fst (newTranslation (outcome fr Torso))"

definition fallsIn :: "frame \<Rightarrow> bool" where
  "fallsIn fr =
     (headY (newTranslation (outcome fr Torso)) (newRotation (outcome fr Torso)) - headRadius
        \<le> HEAD_GROUND_THRESHOLD)"

section \<open>Properties\<close>

subsection \<open>Bounds on \<open>pi\<close>\<close>

lemma sin_taylor8:
  fixes x :: real
  assumes "0 \<le> x"
  shows "x - x ^ 3 / 6 + x ^ 5 / 120 - x ^ 7 / 5040 - x ^ 8 / 40320 \<le> sin x"
    and "sin x \<le> x - x ^ 3 / 6 + x ^ 5 / 120 - x ^ 7 / 5040 + x ^ 8 / 40320"
proof -
  have set8: "{..<8::nat} = {0, 1, 2, 3, 4, 5, 6, 7}"
    by auto
  have poly: "(\<Sum>m<8. sin_coeff m * x ^ m) = x - x ^ 3 / 6 + x ^ 5 / 120 - x ^ 7 / 5040"
    unfolding set8 by (simp add: sin_coeff_def fact_numeral)
  have f8: "(fact 8 :: real) = 40320"
    by (simp add: fact_numeral)
  have ax: "\<bar>x\<bar> = x"
    using assms by simp
  have "\<bar>sin x - (\<Sum>m<8. sin_coeff m * x ^ m)\<bar> \<le> inverse (fact 8) * \<bar>x\<bar> ^ 8"
    by (rule Maclaurin_sin_bound)
  then have "\<bar>sin x - (x - x ^ 3 / 6 + x ^ 5 / 120 - x ^ 7 / 5040)\<bar> \<le> inverse 40320 * x ^ 8"
    by (simp only: poly f8 ax)
  moreover have "inverse 40320 * x ^ 8 = x ^ 8 / 40320"
    by (simp only: divide_inverse mult.commute)
  ultimately show "x - x ^ 3 / 6 + x ^ 5 / 120 - x ^ 7 / 5040 - x ^ 8 / 40320 \<le> sin x"
    and "sin x \<le> x - x ^ 3 / 6 + x ^ 5 / 120 - x ^ 7 / 5040 + x ^ 8 / 40320"
    by linarith+
qed

lemma pi_lower: "31412 / 10000 < pi"
proof -
  let ?a = "7853 / 15000 :: real"
  have "?a - ?a ^ 3 / 6 + ?a ^ 5 / 120 - ?a ^ 7 / 5040 + ?a ^ 8 / 40320 < 1 / 2"
    by (simp add: power_numeral_reduce)
  then have "sin ?a < 1 / 2"
    using sin_taylor8(2) [of ?a] by linarith
  then have "sin ?a < sin (pi / 6)"
    by (simp add: sin_30)
  moreover have "?a \<le> pi / 2" "- (pi / 2) \<le> ?a" "- (pi / 2) \<le> pi / 6" "pi / 6 \<le> pi / 2"
    using pi_ge_two by simp_all
  ultimately have "?a < pi / 6"
    using sin_mono_less_eq [of ?a "pi / 6"] by blast
  then show ?thesis by simp
qed

lemma pi_upper: "pi < 3142 / 1000"
proof -
  let ?b = "1571 / 3000 :: real"
  have "1 / 2 < ?b - ?b ^ 3 / 6 + ?b ^ 5 / 120 - ?b ^ 7 / 5040 - ?b ^ 8 / 40320"
    by (simp add: power_numeral_reduce)
  then have "1 / 2 < sin ?b"
    using sin_taylor8(1) [of ?b] by linarith
  then have "sin (pi / 6) < sin ?b"
    by (simp add: sin_30)
  moreover have "?b \<le> pi / 2" "- (pi / 2) \<le> ?b" "- (pi / 2) \<le> pi / 6" "pi / 6 \<le> pi / 2"
    using pi_ge_two by simp_all
  ultimately have "pi / 6 < ?b"
    using sin_mono_less_eq [of "pi / 6" ?b] by blast
  then show ?thesis by simp
qed

subsection \<open>What each controller block changes\<close>

lemma joints_thighControl:
  "joints (thighControl k hip thigh inp s c) =
     (joints c)(hip := (if isKeyPressed inp k
        then applyJointMotor (joints c hip) MAX_MOTOR_VELOCITY JOINT_MOTOR_MAX_FORCE
        else disableJointMotor (joints c hip)))"
  by (simp add: thighControl_def Let_def)

lemma bodies_thighControl:
  "bodies (thighControl k hip thigh inp s c) =
     (if isKeyPressed inp k \<and> s
      then (bodies c)(thigh := map_option (applyImpulse (1 / 10, 2 / 10)) (bodies c thigh))
      else bodies c)"
  by (auto simp add: thighControl_def Let_def fun_eq_iff)

lemma gate_thighControl:
  "impulseTimer (thighControl k hip thigh inp s c) = impulseTimer c"
  "lastTimestamp (thighControl k hip thigh inp s c) = lastTimestamp c"
  "impulseInterval (thighControl k hip thigh inp s c) = impulseInterval c"
  "timers (thighControl k hip thigh inp s c) = timers c"
  by (simp_all add: thighControl_def Let_def)

lemma joints_kneeControl:
  "joints (kneeControl k knee calf inp s c) =
     (joints c)(knee := (if isKeyPressed inp k
        then applyJointMotor (joints c knee) (- MAX_MOTOR_VELOCITY) JOINT_MOTOR_MAX_FORCE
        else map_option (configureMotorPosition KNEE_REST_ANGLE (KNEE_STIFFNESS * 2)
               (KNEE_DAMPING * 2)) (joints c knee)))"
  by (simp add: kneeControl_def Let_def disableJointMotor_def split: option.splits)

lemma bodies_kneeControl:
  "bodies (kneeControl k knee calf inp s c) =
     (if isKeyPressed inp k \<and> s
      then (bodies c)(calf := map_option (applyImpulse (1 / 10, 2 / 10)) (bodies c calf))
      else bodies c)"
  by (auto simp add: kneeControl_def Let_def fun_eq_iff split: option.splits)

lemma gate_kneeControl:
  "impulseTimer (kneeControl k knee calf inp s c) = impulseTimer c"
  "lastTimestamp (kneeControl k knee calf inp s c) = lastTimestamp c"
  "impulseInterval (kneeControl k knee calf inp s c) = impulseInterval c"
  "timers (kneeControl k knee calf inp s c) = timers c"
  by (simp_all add: kneeControl_def Let_def split: option.splits)

lemma joints_applyArmBalancing_other:
  "n \<noteq> LeftShoulder \<Longrightarrow> n \<noteq> RightShoulder \<Longrightarrow> joints (applyArmBalancing c) n = joints c n"
  by (simp add: applyArmBalancing_def Let_def split: option.splits)

lemma bodies_applyArmBalancing_other:
  "n \<noteq> LeftArm \<Longrightarrow> n \<noteq> RightArm \<Longrightarrow> bodies (applyArmBalancing c) n = bodies c n"
  by (simp add: applyArmBalancing_def Let_def split: option.splits)

lemma gate_applyArmBalancing:
  "impulseTimer (applyArmBalancing c) = impulseTimer c"
  "lastTimestamp (applyArmBalancing c) = lastTimestamp c"
  "impulseInterval (applyArmBalancing c) = impulseInterval c"
  "timers (applyArmBalancing c) = timers c"
  by (simp_all add: applyArmBalancing_def Let_def split: option.splits)

lemma joints_applyQWOPControls:
  "joints (applyQWOPControls inp s c) =
     (joints c)
       (LeftHip := (if isKeyPressed inp KeyQ
          then applyJointMotor (joints c LeftHip) MAX_MOTOR_VELOCITY JOINT_MOTOR_MAX_FORCE
          else disableJointMotor (joints c LeftHip)),
        RightHip := (if isKeyPressed inp KeyW
          then applyJointMotor (joints c RightHip) MAX_MOTOR_VELOCITY JOINT_MOTOR_MAX_FORCE
          else disableJointMotor (joints c RightHip)),
        LeftKnee := (if isKeyPressed inp KeyO
          then applyJointMotor (joints c LeftKnee) (- MAX_MOTOR_VELOCITY) JOINT_MOTOR_MAX_FORCE
          else map_option (configureMotorPosition KNEE_REST_ANGLE (KNEE_STIFFNESS * 2)
                 (KNEE_DAMPING * 2)) (joints c LeftKnee)),
        RightKnee := (if isKeyPressed inp KeyP
          then applyJointMotor (joints c RightKnee) (- MAX_MOTOR_VELOCITY) JOINT_MOTOR_MAX_FORCE
          else map_option (configureMotorPosition KNEE_REST_ANGLE (KNEE_STIFFNESS * 2)
                 (KNEE_DAMPING * 2)) (joints c RightKnee)))"
  by (simp add: applyQWOPControls_def joints_thighControl joints_kneeControl)

lemma gate_applyQWOPControls:
  "impulseTimer (applyQWOPControls inp s c) = impulseTimer c"
  "lastTimestamp (applyQWOPControls inp s c) = lastTimestamp c"
  "impulseInterval (applyQWOPControls inp s c) = impulseInterval c"
  "timers (applyQWOPControls inp s c) = timers c"
  by (simp_all add: applyQWOPControls_def gate_thighControl gate_kneeControl)

lemma bodies_applyQWOPControls_other:
  "n \<noteq> LeftThigh \<Longrightarrow> n \<noteq> RightThigh \<Longrightarrow> n \<noteq> LeftCalf \<Longrightarrow> n \<noteq> RightCalf \<Longrightarrow>
   bodies (applyQWOPControls inp s c) n = bodies c n"
  by (simp add: applyQWOPControls_def bodies_thighControl bodies_kneeControl)

lemma applyInputForces_unfold:
  assumes "joints c LeftHip \<noteq> None" "joints c RightHip \<noteq> None"
    "joints c LeftKnee \<noteq> None" "joints c RightKnee \<noteq> None"
  shows "applyInputForces t inp c =
     applyArmBalancing (applyQWOPControls inp (impulseTimer c + (t - lastTimestamp c) \<ge> impulseInterval c)
       (c\<lparr>lastTimestamp := t,
          impulseTimer := (if impulseTimer c + (t - lastTimestamp c) \<ge> impulseInterval c then 0
                           else impulseTimer c + (t - lastTimestamp c))\<rparr>))"
  using assms by (auto simp add: applyInputForces_def Let_def)

lemma applyInputForces_missing:
  "joints c LeftHip = None \<or> joints c RightHip = None \<or> joints c LeftKnee = None
     \<or> joints c RightKnee = None \<Longrightarrow> applyInputForces t inp c = c"
  by (simp add: applyInputForces_def)

lemma joints_applyInputForces_leg:
  assumes "joints c LeftHip \<noteq> None" "joints c RightHip \<noteq> None"
    "joints c LeftKnee \<noteq> None" "joints c RightKnee \<noteq> None"
    and "n \<noteq> LeftShoulder" "n \<noteq> RightShoulder"
  shows "joints (applyInputForces t inp c) n =
     joints (applyQWOPControls inp (impulseTimer c + (t - lastTimestamp c) \<ge> impulseInterval c) c) n"
  using assms
  by (simp add: applyInputForces_unfold joints_applyArmBalancing_other joints_applyQWOPControls)

lemma applyArmBalancing_present:
  assumes "bodies c Torso = Some torso" and "bodies c LeftArm = Some la"
    and "bodies c RightArm = Some ra"
    and "joints c LeftShoulder = Some ls" and "joints c RightShoulder = Some rs"
  shows joints_applyArmBalancing_left:
      "joints (applyArmBalancing c) LeftShoulder =
         Some (ls\<lparr>motor := PositionHold (leftArmTargetAngle (rotation torso) (angvel torso))
                 (SHOULDER_STIFFNESS * 2) (SHOULDER_DAMPING * (15 / 10))\<rparr>)"
    and joints_applyArmBalancing_right:
      "joints (applyArmBalancing c) RightShoulder =
         Some (rs\<lparr>motor := PositionHold (rightArmTargetAngle (rotation torso) (angvel torso))
                 (SHOULDER_STIFFNESS * 2) (SHOULDER_DAMPING * (15 / 10))\<rparr>)"
  using assms
  by (simp_all add: applyArmBalancing_def Let_def configureMotorPosition_def split: option.splits)

lemma applyArmBalancing_missing:
  "joints c LeftShoulder = None \<or> joints c RightShoulder = None \<Longrightarrow> applyArmBalancing c = c"
  by (auto simp add: applyArmBalancing_def split: option.splits)

lemma applyQWOPControls_keeps_arm_inputs:
  "bodies (applyQWOPControls inp s c) Torso = bodies c Torso"
  "bodies (applyQWOPControls inp s c) LeftArm = bodies c LeftArm"
  "bodies (applyQWOPControls inp s c) RightArm = bodies c RightArm"
  "joints (applyQWOPControls inp s c) LeftShoulder = joints c LeftShoulder"
  "joints (applyQWOPControls inp s c) RightShoulder = joints c RightShoulder"
  by (simp_all add: bodies_applyQWOPControls_other joints_applyQWOPControls)

lemma torso_applyInputForces: "bodies (applyInputForces t inp c) Torso = bodies c Torso"
  by (simp add: applyInputForces_def Let_def bodies_applyArmBalancing_other
      bodies_applyQWOPControls_other)

lemma bodies_worldStep:
  "bodies (worldStep w c) n = map_option
         (\<lambda>b. b\<lparr>translation := newTranslation (w n), rotation := newRotation (w n),
                linvel := newLinvel (w n), angvel := newAngvel (w n)\<rparr>) (bodies c n)"
  by (simp add: worldStep_def)

lemma worldStep_other:
  "joints (worldStep w c) = joints c"
  "impulseTimer (worldStep w c) = impulseTimer c"
  "lastTimestamp (worldStep w c) = lastTimestamp c"
  "impulseInterval (worldStep w c) = impulseInterval c"
  "timers (worldStep w c) = timers c"
  by (simp_all add: worldStep_def)

lemma torso_controlStep:
  "bodies (controlStep fr c) Torso =
     map_option (\<lambda>b. b\<lparr>translation := newTranslation (outcome fr Torso),
        rotation := newRotation (outcome fr Torso), linvel := newLinvel (outcome fr Torso),
        angvel := newAngvel (outcome fr Torso)\<rparr>) (bodies c Torso)"
  by (simp add: controlStep_def bodies_worldStep torso_applyInputForces)

lemma present_thighControl:
  "(bodies (thighControl k hip thigh inp s c) n = None) = (bodies c n = None)"
  by (simp add: bodies_thighControl)

lemma present_kneeControl:
  "(bodies (kneeControl k knee calf inp s c) n = None) = (bodies c n = None)"
  by (simp add: bodies_kneeControl)

lemma present_applyQWOPControls:
  "(bodies (applyQWOPControls inp s c) n = None) = (bodies c n = None)"
  "(joints (applyQWOPControls inp s c) m = None) = (joints c m = None)"
  by (simp_all add: applyQWOPControls_def present_thighControl present_kneeControl
      joints_thighControl joints_kneeControl applyJointMotor_def disableJointMotor_def
      split: option.splits)

lemma present_applyArmBalancing:
  "(bodies (applyArmBalancing c) n = None) = (bodies c n = None)"
  "(joints (applyArmBalancing c) m = None) = (joints c m = None)"
  by (auto simp add: applyArmBalancing_def Let_def split: option.splits)

lemma present_applyInputForces:
  "(bodies (applyInputForces t inp c) n = None) = (bodies c n = None)"
  "(joints (applyInputForces t inp c) m = None) = (joints c m = None)"
  by (simp_all add: applyInputForces_def Let_def present_applyArmBalancing
      present_applyQWOPControls)

lemma present_controlStep:
  "(bodies (controlStep fr c) n = None) = (bodies c n = None)"
  "(joints (controlStep fr c) m = None) = (joints c m = None)"
  by (simp_all add: controlStep_def bodies_worldStep worldStep_other present_applyInputForces)

lemma simulate_missing:
  "joints c n = None \<Longrightarrow> joints (simulate frs c) n = None"
proof (induction frs arbitrary: c)
  case Nil
  then show ?case by (simp add: simulate_def)
next
  case (Cons fr frs)
  have "simulate (fr # frs) c = simulate frs (controlStep fr c)"
    by (simp add: simulate_def)
  then show ?case
    using Cons.IH [of "controlStep fr c"] Cons.prems by (simp add: present_controlStep)
qed

lemma applyInputForces_no_shoulder:
  assumes "joints c LeftHip \<noteq> None" "joints c RightHip \<noteq> None"
    "joints c LeftKnee \<noteq> None" "joints c RightKnee \<noteq> None"
    and "joints c LeftShoulder = None \<or> joints c RightShoulder = None"
  shows "applyInputForces t inp c =
     applyQWOPControls inp (impulseTimer c + (t - lastTimestamp c) \<ge> impulseInterval c)
       (c\<lparr>lastTimestamp := t,
          impulseTimer := (if impulseTimer c + (t - lastTimestamp c) \<ge> impulseInterval c then 0
                           else impulseTimer c + (t - lastTimestamp c))\<rparr>)"
proof -
  let ?q = "applyQWOPControls inp (impulseTimer c + (t - lastTimestamp c) \<ge> impulseInterval c)
       (c\<lparr>lastTimestamp := t,
          impulseTimer := (if impulseTimer c + (t - lastTimestamp c) \<ge> impulseInterval c then 0
                           else impulseTimer c + (t - lastTimestamp c))\<rparr>)"
  have "joints ?q LeftShoulder = None \<or> joints ?q RightShoulder = None"
    using assms(5) by (simp add: applyQWOPControls_keeps_arm_inputs)
  then show ?thesis
    unfolding applyInputForces_unfold [OF assms(1-4)] by (rule applyArmBalancing_missing)
qed

subsection \<open>Impulses and the gate\<close>

lemma kicks_gate_update:
  "kicks n (c\<lparr>lastTimestamp := t, impulseTimer := x\<rparr>) = kicks n c"
  by (simp add: kicks_def)

lemma kicks_worldStep: "kicks n (worldStep w c) = kicks n c"
  by (simp add: kicks_def bodies_worldStep split: option.splits)

lemma kicks_thighControl:
  "kicks n (thighControl k hip thigh inp s c) =
     (if isKeyPressed inp k \<and> s \<and> n = thigh \<and> bodies c thigh \<noteq> None then Suc (kicks n c)
      else kicks n c)"
  by (auto simp add: kicks_def bodies_thighControl applyImpulse_def split: option.splits)

lemma kicks_kneeControl:
  "kicks n (kneeControl k knee calf inp s c) =
     (if isKeyPressed inp k \<and> s \<and> n = calf \<and> bodies c calf \<noteq> None then Suc (kicks n c)
      else kicks n c)"
  by (auto simp add: kicks_def bodies_kneeControl applyImpulse_def split: option.splits)

lemma kicks_applyQWOPControls_LeftThigh:
  "kicks LeftThigh (applyQWOPControls inp s c) =
     (if isKeyPressed inp KeyQ \<and> s \<and> bodies c LeftThigh \<noteq> None then Suc (kicks LeftThigh c)
      else kicks LeftThigh c)"
  by (simp add: applyQWOPControls_def kicks_thighControl kicks_kneeControl)

lemma kicks_applyQWOPControls_le:
  "kicks n (applyQWOPControls inp s c) \<le> kicks n c + (if s then 1 else 0)"
  by (cases n) (simp_all add: applyQWOPControls_def kicks_thighControl kicks_kneeControl)

lemma kicks_applyArmBalancing:
  "n \<noteq> LeftArm \<Longrightarrow> n \<noteq> RightArm \<Longrightarrow> kicks n (applyArmBalancing c) = kicks n c"
  by (simp add: kicks_def bodies_applyArmBalancing_other)

lemma gate_applyInputForces:
  assumes "joints c LeftHip \<noteq> None" "joints c RightHip \<noteq> None"
    "joints c LeftKnee \<noteq> None" "joints c RightKnee \<noteq> None"
  shows "impulseTimer (applyInputForces t inp c) =
           (if impulseTimer c + (t - lastTimestamp c) \<ge> impulseInterval c then 0
            else impulseTimer c + (t - lastTimestamp c))"
    and "lastTimestamp (applyInputForces t inp c) = t"
    and "impulseInterval (applyInputForces t inp c) = impulseInterval c"
    and "kicks LeftThigh (applyInputForces t inp c) =
           (if isKeyPressed inp KeyQ \<and> impulseTimer c + (t - lastTimestamp c) \<ge> impulseInterval c
               \<and> bodies c LeftThigh \<noteq> None
            then Suc (kicks LeftThigh c) else kicks LeftThigh c)"
  using assms
  by (simp_all add: applyInputForces_unfold gate_applyArmBalancing gate_applyQWOPControls
      kicks_applyArmBalancing kicks_applyQWOPControls_LeftThigh kicks_gate_update)

lemma kicks_applyInputForces_le:
  assumes "joints c LeftHip \<noteq> None" "joints c RightHip \<noteq> None"
    "joints c LeftKnee \<noteq> None" "joints c RightKnee \<noteq> None"
    and "n \<noteq> LeftArm" "n \<noteq> RightArm"
  shows "kicks n (applyInputForces t inp c) \<le>
     kicks n c + (if impulseTimer c + (t - lastTimestamp c) \<ge> impulseInterval c then 1 else 0)"
proof -
  let ?s = "impulseTimer c + (t - lastTimestamp c) \<ge> impulseInterval c"
  let ?c1 = "c\<lparr>lastTimestamp := t,
          impulseTimer := (if ?s then 0 else impulseTimer c + (t - lastTimestamp c))\<rparr>"
  have "kicks n (applyInputForces t inp c) = kicks n (applyQWOPControls inp ?s ?c1)"
    using assms by (simp add: applyInputForces_unfold kicks_applyArmBalancing)
  also have "\<dots> \<le> kicks n ?c1 + (if ?s then 1 else 0)"
    by (rule kicks_applyQWOPControls_le)
  also have "kicks n ?c1 = kicks n c"
    by (rule kicks_gate_update)
  finally show ?thesis .
qed

lemma kicks_simulate_gateCount:
  assumes "joints c LeftHip \<noteq> None" "joints c RightHip \<noteq> None"
    "joints c LeftKnee \<noteq> None" "joints c RightKnee \<noteq> None"
    and "bodies c LeftThigh \<noteq> None"
    and "\<forall>fr \<in> set frs. isKeyPressed (input fr) KeyQ"
  shows "kicks LeftThigh (simulate frs c) =
     kicks LeftThigh c
       + gateCount (impulseInterval c) (impulseTimer c) (lastTimestamp c) (map clock frs)"
  using assms
proof (induction frs arbitrary: c)
  case Nil
  then show ?case by (simp add: simulate_def)
next
  case (Cons fr frs)
  let ?c = "controlStep fr c"
  have pres: "joints ?c LeftHip \<noteq> None" "joints ?c RightHip \<noteq> None"
    "joints ?c LeftKnee \<noteq> None" "joints ?c RightKnee \<noteq> None" "bodies ?c LeftThigh \<noteq> None"
    using Cons.prems by (simp_all add: present_controlStep)
  have q: "isKeyPressed (input fr) KeyQ" "\<forall>fr \<in> set frs. isKeyPressed (input fr) KeyQ"
    using Cons.prems by simp_all
  have step: "impulseTimer ?c =
           (if impulseTimer c + (clock fr - lastTimestamp c) \<ge> impulseInterval c then 0
            else impulseTimer c + (clock fr - lastTimestamp c))"
    "lastTimestamp ?c = clock fr" "impulseInterval ?c = impulseInterval c"
    "kicks LeftThigh ?c =
           (if impulseTimer c + (clock fr - lastTimestamp c) \<ge> impulseInterval c
            then Suc (kicks LeftThigh c) else kicks LeftThigh c)"
    using Cons.prems(1-5) q(1)
    by (simp_all add: controlStep_def worldStep_other kicks_worldStep gate_applyInputForces)
  have "simulate (fr # frs) c = simulate frs ?c"
    by (simp add: simulate_def)
  then show ?case
    using Cons.IH [OF pres q(2)] step by simp
qed

lemma kicks_simulate_missing:
  "joints c LeftHip = None \<Longrightarrow> kicks n (simulate frs c) = kicks n c"
proof (induction frs arbitrary: c)
  case Nil
  then show ?case by (simp add: simulate_def)
next
  case (Cons fr frs)
  have "controlStep fr c = worldStep (outcome fr) c"
    using Cons.prems by (simp add: controlStep_def applyInputForces_missing)
  moreover have "simulate (fr # frs) c = simulate frs (controlStep fr c)"
    by (simp add: simulate_def)
  ultimately show ?case
    using Cons.IH [of "worldStep (outcome fr) c"] Cons.prems
    by (simp add: worldStep_other kicks_worldStep)
qed

lemma input_burstFrames: "fr \<in> set (burstFrames t d n) \<Longrightarrow> input fr = holdQ"
  by (induction n arbitrary: t) auto

lemma input_steadyFrames:
  "fr \<in> set (steadyFrames t d inp w n) \<Longrightarrow> \<exists>i. input fr = inp i"
  by (induction n arbitrary: t) auto

lemma gate_steady_30:
  assumes "0 \<le> \<tau>"
  shows "gateCount 80 \<tau> t (map clock (steadyFrames t (1000 / 60) inp w 30)) = 6"
proof -
  consider "80 \<le> \<tau> + 50 / 3"
    | "\<tau> + 50 / 3 < 80" "80 \<le> \<tau> + 100 / 3"
    | "\<tau> + 100 / 3 < 80" "80 \<le> \<tau> + 50"
    | "\<tau> + 50 < 80" "80 \<le> \<tau> + 200 / 3"
    | "\<tau> + 200 / 3 < 80"
    by linarith
  then show ?thesis
  proof cases
    case 1
    then show ?thesis
      by (simp add: eval_nat_numeral)
  next
    case 2
    then show ?thesis
      by (simp add: eval_nat_numeral)
  next
    case 3
    then show ?thesis
      by (simp add: eval_nat_numeral)
  next
    case 4
    then show ?thesis
      by (simp add: eval_nat_numeral)
  next
    case 5
    then show ?thesis
      using assms by (simp add: eval_nat_numeral)
  qed
qed

lemma potential_step:
  assumes "impulseInterval c = 80" and "n \<noteq> LeftArm" "n \<noteq> RightArm"
  shows "80 * real (kicks n (controlStep fr c)) + impulseTimer (controlStep fr c)
           - lastTimestamp (controlStep fr c)
         \<le> 80 * real (kicks n c) + impulseTimer c - lastTimestamp c"
    and "impulseInterval (controlStep fr c) = 80"
proof -
  let ?t = "clock fr"
  let ?c = "applyInputForces ?t (input fr) c"
  have cs: "kicks n (controlStep fr c) = kicks n ?c"
    "impulseTimer (controlStep fr c) = impulseTimer ?c"
    "lastTimestamp (controlStep fr c) = lastTimestamp ?c"
    "impulseInterval (controlStep fr c) = impulseInterval ?c"
    by (simp_all add: controlStep_def kicks_worldStep worldStep_other)
  show "80 * real (kicks n (controlStep fr c)) + impulseTimer (controlStep fr c)
           - lastTimestamp (controlStep fr c)
         \<le> 80 * real (kicks n c) + impulseTimer c - lastTimestamp c"
  proof (cases "joints c LeftHip = None \<or> joints c RightHip = None \<or> joints c LeftKnee = None
     \<or> joints c RightKnee = None")
    case True
    then show ?thesis
      unfolding cs by (simp add: applyInputForces_missing)
  next
    case False
    then have j: "joints c LeftHip \<noteq> None" "joints c RightHip \<noteq> None"
      "joints c LeftKnee \<noteq> None" "joints c RightKnee \<noteq> None"
      by simp_all
    show ?thesis
    proof (cases "impulseTimer c + (?t - lastTimestamp c) \<ge> impulseInterval c")
      case True
      then have "kicks n ?c \<le> kicks n c + 1"
        using kicks_applyInputForces_le [OF j assms(2,3), of ?t "input fr"] by simp
      then have "real (kicks n ?c) \<le> real (kicks n c) + 1"
        by linarith
      moreover have "impulseTimer ?c = 0" "lastTimestamp ?c = ?t"
        using True by (simp_all add: gate_applyInputForces [OF j])
      ultimately show ?thesis
        unfolding cs using True assms(1) by simp
    next
      case False
      then have "kicks n ?c \<le> kicks n c"
        using kicks_applyInputForces_le [OF j assms(2,3), of ?t "input fr"] by simp
      then have "real (kicks n ?c) \<le> real (kicks n c)"
        by linarith
      moreover have "impulseTimer ?c = impulseTimer c + (?t - lastTimestamp c)"
        "lastTimestamp ?c = ?t"
        using False by (simp_all add: gate_applyInputForces [OF j])
      ultimately show ?thesis
        unfolding cs by simp
    qed
  qed
  show "impulseInterval (controlStep fr c) = 80"
    unfolding cs using assms(1)
    by (cases "joints c LeftHip = None \<or> joints c RightHip = None \<or> joints c LeftKnee = None
     \<or> joints c RightKnee = None")
      (auto simp add: applyInputForces_missing gate_applyInputForces)
qed

lemma timer_step:
  assumes "0 \<le> impulseTimer c" and "lastTimestamp c \<le> clock fr"
  shows "0 \<le> impulseTimer (controlStep fr c)"
    and "lastTimestamp (controlStep fr c) \<le> clock fr"
proof -
  let ?c = "applyInputForces (clock fr) (input fr) c"
  have cs: "impulseTimer (controlStep fr c) = impulseTimer ?c"
    "lastTimestamp (controlStep fr c) = lastTimestamp ?c"
    by (simp_all add: controlStep_def worldStep_other)
  show "0 \<le> impulseTimer (controlStep fr c)"
    unfolding cs using assms
    by (cases "joints c LeftHip = None \<or> joints c RightHip = None \<or> joints c LeftKnee = None
     \<or> joints c RightKnee = None")
      (auto simp add: applyInputForces_missing gate_applyInputForces)
  show "lastTimestamp (controlStep fr c) \<le> clock fr"
    unfolding cs using assms
    by (cases "joints c LeftHip = None \<or> joints c RightHip = None \<or> joints c LeftKnee = None
     \<or> joints c RightKnee = None")
      (auto simp add: applyInputForces_missing gate_applyInputForces)
qed

lemma potential_simulate:
  assumes "impulseInterval c = 80" and "n \<noteq> LeftArm" "n \<noteq> RightArm"
  shows "80 * real (kicks n (simulate frs c)) + impulseTimer (simulate frs c)
           - lastTimestamp (simulate frs c)
         \<le> 80 * real (kicks n c) + impulseTimer c - lastTimestamp c"
  using assms(1)
proof (induction frs arbitrary: c)
  case Nil
  then show ?case by (simp add: simulate_def)
next
  case (Cons fr frs)
  have "simulate (fr # frs) c = simulate frs (controlStep fr c)"
    by (simp add: simulate_def)
  then show ?case
    using Cons.IH [OF potential_step(2) [OF Cons.prems assms(2,3)], of fr]
      potential_step(1) [OF Cons.prems assms(2,3), of fr]
    by simp
qed

lemma timer_simulate:
  assumes "0 \<le> impulseTimer c" and "sorted (lastTimestamp c # map clock frs)"
  shows "0 \<le> impulseTimer (simulate frs c)"
  using assms
proof (induction frs arbitrary: c)
  case Nil
  then show ?case by (simp add: simulate_def)
next
  case (Cons fr frs)
  have le: "lastTimestamp c \<le> clock fr"
    using Cons.prems(2) by simp
  have "sorted (lastTimestamp (controlStep fr c) # map clock frs)"
    using Cons.prems(2) timer_step(2) [OF Cons.prems(1) le] by auto
  moreover have "simulate (fr # frs) c = simulate frs (controlStep fr c)"
    by (simp add: simulate_def)
  ultimately show ?case
    using Cons.IH [OF timer_step(1) [OF Cons.prems(1) le]] by simp
qed

lemma kicks_bound:
  assumes "impulseInterval c = 80" and "0 \<le> impulseTimer c"
    and "sorted (lastTimestamp c # map clock frs)" and "n \<noteq> LeftArm" "n \<noteq> RightArm"
  shows "80 * real (kicks n (simulate frs c))
     \<le> 80 * real (kicks n c) + impulseTimer c + (lastTimestamp (simulate frs c) - lastTimestamp c)"
  using potential_simulate [OF assms(1,4,5), of frs] timer_simulate [OF assms(2,3)]
  by linarith

subsection \<open>Building and stabilising the skeleton\<close>

lemma torso_push:
  assumes "mass b = 216 / 1000" and "linvel b = (0, 0)"
  shows "linvel (applyImpulse (0, 15 / 10) (b\<lparr>linearDamping := d, angularDamping := e\<rparr>))
     = (0, 125 / 18)"
proof -
  let ?b = "b\<lparr>linearDamping := d, angularDamping := e\<rparr>"
  have m: "mass ?b = 216 / 1000"
    using assms(1) by (simp add: mass_def)
  have l: "linvel ?b = (0, 0)"
    using assms(2) by simp
  have "linvel (applyImpulse (0, 15 / 10) ?b)
      = (fst (linvel ?b) + 0 / mass ?b, snd (linvel ?b) + (15 / 10) / mass ?b)"
    by (simp add: applyImpulse_def)
  also have "\<dots> = (0, 125 / 18)"
    unfolding m l by simp
  finally show ?thesis .
qed

lemma bodies_createPhysicsBodies_present: "bodies (createPhysicsBodies c) n \<noteq> None"
  by (cases n) (simp_all add: createPhysicsBodies_def Let_def)

lemma joints_createJoints_present:
  "(\<And>m. bodies c m \<noteq> None) \<Longrightarrow> (joints (createJoints ok c) n \<noteq> None) = ok n"
  by (cases n) (auto simp add: createJoints_def Let_def createRevoluteJoint_def plainLimits_def
      shoulderLimits_def split: option.splits)

lemma joints_createJoints_motor:
  "joints (createJoints ok c) n = Some j \<Longrightarrow> motor j = Disabled"
  by (cases n) (auto simp add: createJoints_def Let_def createRevoluteJoint_def plainLimits_def
      shoulderLimits_def split: option.splits if_splits)

lemma created_body:
  assumes "bodies (createPhysicsBodies c) n = Some b"
  shows "linvel b = (0, 0) \<and> angvel b = 0 \<and> impulses b = []
     \<and> rotation b = 0 \<and> linearDamping b = LINEAR_DAMPING \<and> angularDamping b = ANGULAR_DAMPING"
  using assms
  by (cases n) (auto simp add: createPhysicsBodies_def Let_def createDynamicBody_def)

lemma created_torso:
  "map_option translation (bodies (createPhysicsBodies c) Torso) = Some (0, - (35 / 10))"
  "map_option mass (bodies (createPhysicsBodies c) Torso) = Some (216 / 1000)"
  by (simp_all add: createPhysicsBodies_def Let_def createDynamicBody_def INITIAL_POSITION_def
      mass_def TORSO_WIDTH_def TORSO_HEIGHT_def TORSO_DENSITY_def)

lemma created_thighs:
  "map_option translation (bodies (createPhysicsBodies c) LeftThigh)
     = Some (- (3 / 40), - (161 / 40))"
  "map_option translation (bodies (createPhysicsBodies c) RightThigh)
     = Some (3 / 40, - (161 / 40))"
  by (simp_all add: createPhysicsBodies_def Let_def createDynamicBody_def INITIAL_POSITION_def
      TORSO_WIDTH_def THIGH_HEIGHT_def)

lemma applyImpulse_fields:
  "translation (applyImpulse v b) = translation b"
  "rotation (applyImpulse v b) = rotation b"
  "angvel (applyImpulse v b) = angvel b"
  "linearDamping (applyImpulse v b) = linearDamping b"
  "angularDamping (applyImpulse v b) = angularDamping b"
  "impulses (applyImpulse v b) = impulses b @ [v]"
  "linvel (applyImpulse v b) = (fst (linvel b) + fst v / mass b, snd (linvel b) + snd v / mass b)"
  by (simp_all add: applyImpulse_def)

lemmas applyImpulse_others = applyImpulse_fields(1-6)

lemma mass_damping:
  "mass (b\<lparr>linearDamping := d, angularDamping := e\<rparr>) = mass b"
  by (simp add: mass_def)

lemma createPhysicsBodies_other:
  "joints (createPhysicsBodies c) = joints c"
  "impulseTimer (createPhysicsBodies c) = impulseTimer c"
  "lastTimestamp (createPhysicsBodies c) = lastTimestamp c"
  "impulseInterval (createPhysicsBodies c) = impulseInterval c"
  "timers (createPhysicsBodies c) = timers c"
  by (simp_all add: createPhysicsBodies_def Let_def)

lemma createJoints_other:
  "bodies (createJoints ok c) = bodies c"
  "impulseTimer (createJoints ok c) = impulseTimer c"
  "lastTimestamp (createJoints ok c) = lastTimestamp c"
  "impulseInterval (createJoints ok c) = impulseInterval c"
  "timers (createJoints ok c) = timers c"
  by (simp_all add: createJoints_def Let_def)

lemma bodies_rebuild: "bodies (rebuild ok c) = bodies (createPhysicsBodies c)"
proof
  fix n
  obtain b where b: "bodies (createPhysicsBodies c) n = Some b"
    using bodies_createPhysicsBodies_present [of c n] by auto
  have "setAngvel 0 (setLinvel (0, 0) b) = b"
    using created_body [OF b] by (simp add: setAngvel_def setLinvel_def)
  then show "bodies (rebuild ok c) n = bodies (createPhysicsBodies c) n"
    using b by (simp add: rebuild_def createJoints_other resetVelocities_def forEachBody_def)
qed

lemma rebuild_other:
  "impulseTimer (rebuild ok c) = impulseTimer c"
  "lastTimestamp (rebuild ok c) = lastTimestamp c"
  "impulseInterval (rebuild ok c) = impulseInterval c"
  "timers (rebuild ok c) = timers c"
  by (simp_all add: rebuild_def createJoints_other resetVelocities_def createPhysicsBodies_other)

lemma joints_rebuild_present: "(joints (rebuild ok c) n \<noteq> None) = ok n"
proof -
  have "\<And>m. bodies (resetVelocities (createPhysicsBodies c)) m \<noteq> None"
    using bodies_createPhysicsBodies_present
    by (simp add: resetVelocities_def forEachBody_def)
  then show ?thesis
    unfolding rebuild_def by (rule joints_createJoints_present)
qed

lemma joints_rebuild_None: "(joints (rebuild ok c) n = None) = (\<not> ok n)"
  using joints_rebuild_present [of ok c n] by auto

lemma joints_rebuild_motor: "joints (rebuild ok c) n = Some j \<Longrightarrow> motor j = Disabled"
  unfolding rebuild_def by (rule joints_createJoints_motor)

lemmas stabilize_defs = stabilizeJoints_def stabilizeShoulders_def stabilizeHips_def
  stabilizeKnees_def holdPair_def Let_def

lemma stabilizeJoints_gate:
  "impulseTimer (stabilizeJoints now c) = impulseTimer c"
  "lastTimestamp (stabilizeJoints now c) = lastTimestamp c"
  "impulseInterval (stabilizeJoints now c) = impulseInterval c"
  by (simp_all add: stabilize_defs stabilizeBodies_def split: option.splits)

lemma stabilizeJoints_present:
  "(joints (stabilizeJoints now c) n = None) = (joints c n = None)"
  by (simp add: stabilize_defs stabilizeBodies_def split: option.splits)

lemma stabilizeJoints_completes:
  assumes "stabilizes c"
  shows "bodies (stabilizeJoints now c) = bodies (stabilizeBodies now c)"
    and "timers (stabilizeJoints now c) = timers c @ [(now + 500, ReduceDamping)]"
  using assms
  by (auto simp add: stabilize_defs stabilizeBodies_def stabilizes_def split: option.splits if_splits)

lemma stabilizeJoints_aborts:
  assumes "\<not> stabilizes c"
  shows "bodies (stabilizeJoints now c) = bodies c"
    and "timers (stabilizeJoints now c) = timers c"
  using assms
  by (auto simp add: stabilize_defs stabilizeBodies_def stabilizes_def split: option.splits if_splits)

lemma stabilizeJoints_hip_abort:
  "joints c LeftHip = None \<Longrightarrow> n \<noteq> LeftShoulder \<Longrightarrow> n \<noteq> RightShoulder \<Longrightarrow>
     joints (stabilizeJoints now c) n = joints c n"
  by (simp add: stabilize_defs stabilizeBodies_def split: option.splits)

lemma joints_stabilizeJoints:
  assumes "joints c LeftShoulder = Some ls" and "joints c RightShoulder = Some rs"
    and "joints c LeftHip = Some lh" and "joints c RightHip = Some rh"
    and "joints c LeftKnee = Some lk" and "joints c RightKnee = Some rk"
  shows "joints (stabilizeJoints now c) =
     (joints c)
       (LeftShoulder := Some (ls\<lparr>motor := PositionHold SHOULDER_REST_ANGLE INITIAL_STIFFNESS INITIAL_DAMPING\<rparr>),
        RightShoulder := Some (rs\<lparr>motor := PositionHold SHOULDER_REST_ANGLE INITIAL_STIFFNESS INITIAL_DAMPING\<rparr>),
        LeftHip := Some (lh\<lparr>motor := PositionHold 0 INITIAL_STIFFNESS INITIAL_DAMPING\<rparr>),
        RightHip := Some (rh\<lparr>motor := PositionHold 0 INITIAL_STIFFNESS INITIAL_DAMPING\<rparr>),
        LeftKnee := Some (lk\<lparr>motor := PositionHold (- (5 / 100)) INITIAL_STIFFNESS INITIAL_DAMPING\<rparr>),
        RightKnee := Some (rk\<lparr>motor := PositionHold (- (5 / 100)) INITIAL_STIFFNESS INITIAL_DAMPING\<rparr>))"
  using assms
  by (simp add: stabilize_defs stabilizeBodies_def configureMotorPosition_def)

lemma bodies_stabilizeBodies:
  "bodies (stabilizeBodies now c) n =
     map_option (\<lambda>b. if n = Torso
        then applyImpulse (0, 15 / 10) (b\<lparr>linearDamping := 1, angularDamping := 1\<rparr>)
        else b\<lparr>linearDamping := 8 / 10, angularDamping := 8 / 10\<rparr>) (bodies c n)"
  by (cases "bodies c n")
    (auto simp add: stabilizeBodies_def Let_def forEachBody_def setLinearDamping_def
      setAngularDamping_def)

lemma stabilizes_rebuild:
  "stabilizes (rebuild ok c) =
     ((if ok LeftShoulder then ok RightShoulder else True)
      \<and> ok LeftHip \<and> ok RightHip \<and> ok LeftKnee \<and> ok RightKnee)"
  by (simp add: stabilizes_def joints_rebuild_None del: not_None_eq)

lemma bodies_reset:
  "bodies (reset ok now c) n =
     (if stabilizes (rebuild ok c) then bodies (stabilizeBodies now (rebuild ok c)) n
      else bodies (createPhysicsBodies c) n)"
  by (simp add: reset_def stabilizeJoints_completes stabilizeJoints_aborts bodies_rebuild)

lemma init_eq_reset: "init ok now c = reset ok now c"
proof -
  have "bodies (resetVelocities (createPhysicsBodies c)) = bodies (createPhysicsBodies c)"
    using bodies_rebuild [of ok c] by (simp add: rebuild_def createJoints_other)
  then have "resetVelocities (createPhysicsBodies c) = createPhysicsBodies c"
    by (simp add: resetVelocities_def)
  then show ?thesis
    by (simp add: init_def reset_def rebuild_def)
qed

lemma timers_reset:
  "timers (reset ok now c) =
     timers c @ (if stabilizes (rebuild ok c) then [(now + 500, ReduceDamping)] else [])"
  by (simp add: reset_def stabilizeJoints_completes stabilizeJoints_aborts rebuild_other)

lemma gate_reset:
  "impulseTimer (reset ok now c) = impulseTimer c"
  "lastTimestamp (reset ok now c) = lastTimestamp c"
  "impulseInterval (reset ok now c) = impulseInterval c"
  by (simp_all add: reset_def stabilizeJoints_gate rebuild_other)

lemma joints_reset_None: "(joints (reset ok now c) n = None) = (\<not> ok n)"
  by (simp add: reset_def stabilizeJoints_present joints_rebuild_None)

lemma stabilizes_every: "stabilizes (rebuild everyJointCreated c)"
  by (simp add: stabilizes_rebuild everyJointCreated_def)

lemma damping_reset_every:
  "map_option linearDamping (bodies (reset everyJointCreated now c) n)
     = Some (if n = Torso then 1 else 8 / 10)"
  "map_option angularDamping (bodies (reset everyJointCreated now c) n)
     = Some (if n = Torso then 1 else 8 / 10)"
proof -
  obtain b where b: "bodies (createPhysicsBodies c) n = Some b"
    using bodies_createPhysicsBodies_present [of c n] by auto
  show "map_option linearDamping (bodies (reset everyJointCreated now c) n)
     = Some (if n = Torso then 1 else 8 / 10)"
    "map_option angularDamping (bodies (reset everyJointCreated now c) n)
     = Some (if n = Torso then 1 else 8 / 10)"
    using b
    by (simp_all add: bodies_reset stabilizes_every bodies_stabilizeBodies bodies_rebuild
        applyImpulse_fields)
qed

subsection \<open>The concrete characters\<close>

lemma standing_eq: "standing = reset everyJointCreated 0 (newCharacter 0)"
  by (simp add: standing_def init_eq_reset)

lemma standing_joints: "joints standing n \<noteq> None"
  using joints_reset_None [of everyJointCreated 0 "newCharacter 0" n]
  by (simp add: standing_eq everyJointCreated_def)

lemma standing_bodies: "bodies standing n \<noteq> None"
  using bodies_createPhysicsBodies_present [of "newCharacter 0" n]
  by (auto simp add: standing_eq bodies_reset bodies_stabilizeBodies bodies_rebuild)

lemma standing_gate:
  "impulseTimer standing = 0" "lastTimestamp standing = 0" "impulseInterval standing = 80"
  by (simp_all add: standing_eq gate_reset newCharacter_def)

lemma standing_body:
  "map_option impulses (bodies standing n) = Some (if n = Torso then [(0, 15 / 10)] else [])"
  "map_option rotation (bodies standing n) = Some 0"
  "map_option angvel (bodies standing n) = Some 0"
proof -
  obtain b where b: "bodies (createPhysicsBodies (newCharacter 0)) n = Some b"
    using bodies_createPhysicsBodies_present [of "newCharacter 0" n] by auto
  show "map_option impulses (bodies standing n) = Some (if n = Torso then [(0, 15 / 10)] else [])"
    "map_option rotation (bodies standing n) = Some 0"
    "map_option angvel (bodies standing n) = Some 0"
    using b created_body [OF b]
    by (simp_all add: standing_eq bodies_reset stabilizes_every bodies_stabilizeBodies
        bodies_rebuild applyImpulse_fields)
qed

lemma standing_impulses:
  "map_option impulses (bodies standing Torso) = Some [(0, 15 / 10)]"
  "n \<noteq> Torso \<Longrightarrow> map_option impulses (bodies standing n) = Some []"
  by (simp_all add: standing_body)

lemma standing_torso_pose:
  "map_option rotation (bodies standing Torso) = Some 0"
  "map_option angvel (bodies standing Torso) = Some 0"
  by (simp_all add: standing_body)

lemma standing_motor:
  "map_option motor (joints standing LeftHip) = Some (PositionHold 0 35 3)"
  "map_option motor (joints standing RightHip) = Some (PositionHold 0 35 3)"
  "map_option motor (joints standing LeftKnee) = Some (PositionHold (- (5 / 100)) 35 3)"
  "map_option motor (joints standing RightKnee) = Some (PositionHold (- (5 / 100)) 35 3)"
  "map_option motor (joints standing LeftShoulder) = Some (PositionHold (pi / 8) 35 3)"
  "map_option motor (joints standing RightShoulder) = Some (PositionHold (pi / 8) 35 3)"
proof -
  let ?c = "rebuild everyJointCreated (newCharacter 0)"
  obtain ls rs lh rh lk rk where js: "joints ?c LeftShoulder = Some ls"
    "joints ?c RightShoulder = Some rs" "joints ?c LeftHip = Some lh"
    "joints ?c RightHip = Some rh" "joints ?c LeftKnee = Some lk" "joints ?c RightKnee = Some rk"
    using joints_rebuild_None [of everyJointCreated "newCharacter 0"]
    by (metis everyJointCreated_def not_None_eq)
  have s: "standing = stabilizeJoints 0 ?c"
    by (simp add: standing_eq reset_def)
  show "map_option motor (joints standing LeftHip) = Some (PositionHold 0 35 3)"
    "map_option motor (joints standing RightHip) = Some (PositionHold 0 35 3)"
    "map_option motor (joints standing LeftKnee) = Some (PositionHold (- (5 / 100)) 35 3)"
    "map_option motor (joints standing RightKnee) = Some (PositionHold (- (5 / 100)) 35 3)"
    "map_option motor (joints standing LeftShoulder) = Some (PositionHold (pi / 8) 35 3)"
    "map_option motor (joints standing RightShoulder) = Some (PositionHold (pi / 8) 35 3)"
    unfolding s joints_stabilizeJoints [OF js]
    by (simp_all add: INITIAL_STIFFNESS_def INITIAL_DAMPING_def SHOULDER_REST_ANGLE_def)
qed

lemma timers_standing: "timers standing = [(500, ReduceDamping)]"
  by (simp add: standing_eq timers_reset stabilizes_every newCharacter_def)

lemma hipless_joints:
  "joints hipless LeftHip = None"
  "joints hipless RightKnee \<noteq> None"
  "map_option motor (joints hipless RightHip) = Some Disabled"
  "map_option motor (joints hipless RightKnee) = Some Disabled"
proof -
  let ?c = "rebuild leftHipFails (newCharacter 0)"
  have h: "hipless = stabilizeJoints 0 ?c"
    by (simp add: hipless_def init_eq_reset reset_def)
  show "joints hipless LeftHip = None"
    by (simp add: hipless_def init_eq_reset joints_reset_None leftHipFails_def)
  show "joints hipless RightKnee \<noteq> None"
    using joints_reset_None [of leftHipFails 0 "newCharacter 0" RightKnee]
    by (simp add: hipless_def init_eq_reset leftHipFails_def)
  have n: "joints ?c LeftHip = None"
    by (simp add: joints_rebuild_None leftHipFails_def)
  obtain j k where j: "joints ?c RightHip = Some j" and k: "joints ?c RightKnee = Some k"
    using joints_rebuild_None [of leftHipFails "newCharacter 0" RightHip]
      joints_rebuild_None [of leftHipFails "newCharacter 0" RightKnee]
    by (auto simp add: leftHipFails_def)
  show "map_option motor (joints hipless RightHip) = Some Disabled"
    unfolding h using stabilizeJoints_hip_abort [OF n, of RightHip 0] j joints_rebuild_motor [OF j]
    by simp
  show "map_option motor (joints hipless RightKnee) = Some Disabled"
    unfolding h using stabilizeJoints_hip_abort [OF n, of RightKnee 0] k joints_rebuild_motor [OF k]
    by simp
qed

lemma hipless_unstabilised:
  "\<not> stabilizes (rebuild leftHipFails (newCharacter 0))"
  "timers hipless = []"
  "map_option linearDamping (bodies hipless n) = Some (15 / 100)"
  "map_option impulses (bodies hipless n) = Some []"
proof -
  show u: "\<not> stabilizes (rebuild leftHipFails (newCharacter 0))"
    by (simp add: stabilizes_rebuild leftHipFails_def)
  show "timers hipless = []"
    using u by (simp add: hipless_def init_eq_reset timers_reset newCharacter_def)
  obtain b where b: "bodies (createPhysicsBodies (newCharacter 0)) n = Some b"
    using bodies_createPhysicsBodies_present [of "newCharacter 0" n] by auto
  show "map_option linearDamping (bodies hipless n) = Some (15 / 100)"
    "map_option impulses (bodies hipless n) = Some []"
    using u b created_body [OF b]
    by (simp_all add: hipless_def init_eq_reset bodies_reset LINEAR_DAMPING_def)
qed

lemma shoulderless_facts:
  "joints shoulderless LeftShoulder = None"
  "joints shoulderless LeftHip \<noteq> None" "joints shoulderless RightHip \<noteq> None"
  "joints shoulderless LeftKnee \<noteq> None" "joints shoulderless RightKnee \<noteq> None"
  "impulseTimer shoulderless = 0" "lastTimestamp shoulderless = 0"
  "impulseInterval shoulderless = 80"
  "bodies shoulderless n \<noteq> None"
  "map_option translation (bodies shoulderless Torso) = Some (0, - (35 / 10))"
  "map_option translation (bodies shoulderless LeftThigh) = Some (- (3 / 40), - (161 / 40))"
  "map_option translation (bodies shoulderless RightThigh) = Some (3 / 40, - (161 / 40))"
  "map_option impulses (bodies shoulderless LeftArm) = Some []"
  "map_option impulses (bodies shoulderless RightArm) = Some []"
proof -
  have e: "shoulderless = reset leftShoulderFails 0 (newCharacter 0)"
    by (simp add: shoulderless_def init_eq_reset)
  have st: "stabilizes (rebuild leftShoulderFails (newCharacter 0))"
    by (simp add: stabilizes_rebuild leftShoulderFails_def)
  show "joints shoulderless LeftShoulder = None"
    by (simp add: e joints_reset_None leftShoulderFails_def)
  show "joints shoulderless LeftHip \<noteq> None" "joints shoulderless RightHip \<noteq> None"
    "joints shoulderless LeftKnee \<noteq> None" "joints shoulderless RightKnee \<noteq> None"
    using joints_reset_None [of leftShoulderFails 0 "newCharacter 0"]
    by (simp_all add: e leftShoulderFails_def)
  show "impulseTimer shoulderless = 0" "lastTimestamp shoulderless = 0"
    "impulseInterval shoulderless = 80"
    by (simp_all add: e gate_reset newCharacter_def)
  show "bodies shoulderless n \<noteq> None"
    using bodies_createPhysicsBodies_present [of "newCharacter 0" n]
    by (auto simp add: e bodies_reset bodies_stabilizeBodies bodies_rebuild)
  show "map_option translation (bodies shoulderless Torso) = Some (0, - (35 / 10))"
    "map_option translation (bodies shoulderless LeftThigh) = Some (- (3 / 40), - (161 / 40))"
    "map_option translation (bodies shoulderless RightThigh) = Some (3 / 40, - (161 / 40))"
    using created_torso(1) [of "newCharacter 0"] created_thighs [of "newCharacter 0"]
    by (auto simp add: e bodies_reset st bodies_stabilizeBodies bodies_rebuild
        applyImpulse_fields)
  obtain la ra where b: "bodies (createPhysicsBodies (newCharacter 0)) LeftArm = Some la"
    "bodies (createPhysicsBodies (newCharacter 0)) RightArm = Some ra"
    using bodies_createPhysicsBodies_present [of "newCharacter 0"] by (meson not_None_eq)
  show "map_option impulses (bodies shoulderless LeftArm) = Some []"
    "map_option impulses (bodies shoulderless RightArm) = Some []"
    using b created_body [OF b(1)] created_body [OF b(2)]
    by (simp_all add: e bodies_reset st bodies_stabilizeBodies bodies_rebuild)
qed

subsection \<open>Updates of a running game\<close>

lemma update_playing:
  assumes "gameState g = PLAYING" and "bodies (character g) Torso \<noteq> None"
  shows "update fr g =
     Inr (if fallsIn fr then gameOver (g\<lparr>character := controlStep fr (character g)\<rparr>)
          else if torsoXAfter fr > maxDistance g
          then g\<lparr>character := controlStep fr (character g), maxDistance := torsoXAfter fr,
                 scoreUpdates := scoreUpdates g @ [torsoXAfter fr]\<rparr>
          else g\<lparr>character := controlStep fr (character g)\<rparr>)"
proof -
  obtain b where b: "bodies (character g) Torso = Some b"
    using assms(2) by auto
  show ?thesis
    using assms(1) b
    by (simp add: update_def Let_def checkGameOver_def isHeadTouchingGround_def getPosition_def
        torso_controlStep fallsIn_def torsoXAfter_def)
qed

lemma update_character:
  assumes "gameState g = PLAYING" and "bodies (character g) Torso \<noteq> None"
  shows "\<exists>g'. update fr g = Inr g' \<and> character g' = controlStep fr (character g)"
  using update_playing [OF assms, of fr] by (simp add: gameOver_def)

lemma run_not_playing: "gameState g \<noteq> PLAYING \<Longrightarrow> run frs g = Inr g"
  by (induction frs) (simp_all add: update_def)

lemma Max_fold: "Max (set (m # xs)) = fold max xs (m::real)"
  by (rule Max.set_eq_fold)

lemma run_playing:
  assumes "gameState g = PLAYING" and "bodies (character g) Torso \<noteq> None"
  shows "\<exists>g' new. run frs g = Inr g'
     \<and> scoreUpdates g' = scoreUpdates g @ new
     \<and> sorted_wrt (<) (maxDistance g # new)
     \<and> maxDistance g' = last (maxDistance g # new)
     \<and> maxDistance g' =
         Max (set (maxDistance g # map torsoXAfter (takeWhile (\<lambda>fr. \<not> fallsIn fr) frs)))
     \<and> gameState g' = (if \<exists>fr \<in> set frs. fallsIn fr then GAME_OVER else PLAYING)
     \<and> gameOverShown g' =
         gameOverShown g @ (if \<exists>fr \<in> set frs. fallsIn fr then [maxDistance g'] else [])"
  using assms
proof (induction frs arbitrary: g)
  case Nil
  then show ?case by simp
next
  case (Cons fr frs)
  let ?g1 = "g\<lparr>character := controlStep fr (character g)\<rparr>"
  note up = update_playing [OF Cons.prems, of fr]
  have torso: "bodies (controlStep fr (character g)) Torso \<noteq> None"
    using Cons.prems(2) by (simp add: present_controlStep)
  show ?case
  proof (cases "fallsIn fr")
    case True
    have "run (fr # frs) g = Inr (gameOver ?g1)"
      using up True by (simp add: run_not_playing gameOver_def)
    then show ?thesis
      using True by (simp add: gameOver_def)
  next
    case False
    show ?thesis
    proof (cases "torsoXAfter fr > maxDistance g")
      case True
      let ?g2 = "g\<lparr>character := controlStep fr (character g), maxDistance := torsoXAfter fr,
                 scoreUpdates := scoreUpdates g @ [torsoXAfter fr]\<rparr>"
      have r: "run (fr # frs) g = run frs ?g2"
        using up False True by simp
      obtain g' new where ih: "run frs ?g2 = Inr g'"
        "scoreUpdates g' = scoreUpdates ?g2 @ new"
        "sorted_wrt (<) (maxDistance ?g2 # new)"
        "maxDistance g' = last (maxDistance ?g2 # new)"
        "maxDistance g' =
         Max (set (maxDistance ?g2 # map torsoXAfter (takeWhile (\<lambda>fr. \<not> fallsIn fr) frs)))"
        "gameState g' = (if \<exists>fr \<in> set frs. fallsIn fr then GAME_OVER else PLAYING)"
        "gameOverShown g' =
         gameOverShown ?g2 @ (if \<exists>fr \<in> set frs. fallsIn fr then [maxDistance g'] else [])"
        using Cons.IH [of ?g2] Cons.prems(1) torso by auto
      have s: "sorted_wrt (<) (maxDistance g # torsoXAfter fr # new)"
        using ih(3) True by auto
      have m: "maxDistance g' =
         Max (set (maxDistance g # map torsoXAfter (takeWhile (\<lambda>fr. \<not> fallsIn fr) (fr # frs))))"
        using ih(5) True False unfolding Max_fold by (simp add: max_def)
      show ?thesis
        using r ih(1,2,4,6,7) s m False
        by (intro exI [of _ g'] exI [of _ "torsoXAfter fr # new"]) simp
    next
      case nogain: False
      have r: "run (fr # frs) g = run frs ?g1"
        using up False nogain by simp
      obtain g' new where ih: "run frs ?g1 = Inr g'"
        "scoreUpdates g' = scoreUpdates ?g1 @ new"
        "sorted_wrt (<) (maxDistance ?g1 # new)"
        "maxDistance g' = last (maxDistance ?g1 # new)"
        "maxDistance g' =
         Max (set (maxDistance ?g1 # map torsoXAfter (takeWhile (\<lambda>fr. \<not> fallsIn fr) frs)))"
        "gameState g' = (if \<exists>fr \<in> set frs. fallsIn fr then GAME_OVER else PLAYING)"
        "gameOverShown g' =
         gameOverShown ?g1 @ (if \<exists>fr \<in> set frs. fallsIn fr then [maxDistance g'] else [])"
        using Cons.IH [of ?g1] Cons.prems(1) torso by auto
      have m: "maxDistance g' =
         Max (set (maxDistance g # map torsoXAfter (takeWhile (\<lambda>fr. \<not> fallsIn fr) (fr # frs))))"
        using ih(5) nogain False unfolding Max_fold by (simp add: max_def)
      show ?thesis
        using r ih(1,2,3,4,6,7) m False
        by (intro exI [of _ g'] exI [of _ new]) simp
    qed
  qed
qed

lemma start_state:
  "gameState (start ok now g) = PLAYING"
  "maxDistance (start ok now g) = 0"
  "scoreUpdates (start ok now g) = scoreUpdates g @ [0]"
  "gameOverShown (start ok now g) = gameOverShown g"
  "bodies (character (start ok now g)) Torso \<noteq> None"
proof -
  have "bodies (reset ok now (character g)) Torso \<noteq> None"
    using bodies_createPhysicsBodies_present [of "character g" Torso]
    by (auto simp add: bodies_reset bodies_stabilizeBodies bodies_rebuild)
  then show "bodies (character (start ok now g)) Torso \<noteq> None"
    by (simp add: start_def)
qed (simp_all add: start_def)

lemma example_frames:
  "fallsIn strideFrame = False" "fallsIn fallFrame = True"
  "torsoXAfter strideFrame = 1" "torsoXAfter fallFrame = 2"
  by (simp_all add: fallsIn_def torsoXAfter_def strideFrame_def fallFrame_def strideWorld_def
      fallWorld_def headY_def headRadius_def torsoHeadOffset_def TORSO_HEIGHT_def
      HEAD_GROUND_THRESHOLD_def)

subsection \<open>The balance feedback controller\<close>

text \<open>
  Claim C1, as the code has it. On every call of \<^verbatim>\<open>applyInputForces\<close> on a character whose
  hip, knee and shoulder joints, torso and arms exist, both shoulder joints are set to
  position hold with one and the same target \<open>- 3 \<cdot> \<theta> - 2 \<cdot> \<omega> + pi / 8\<close>, where \<open>\<theta>\<close> and \<open>\<omega>\<close> are
  the torso's rotation and angular velocity, with stiffness 16 (twice the nominal 8) and
  damping 1.8 (1.5 times the nominal 1.2). The target is handed to the joint as computed:
  nothing clamps it to the shoulder's limits. For \<open>\<theta> = 0.3\<close> and \<open>\<omega> = - 0.5\<close> it is within
  0.00005 of 0.4927 and lies inside the limits \<open>[- pi / 2, pi / 2]\<close>.
\<close>

theorem balance_target_unclamped:
  assumes "joints c LeftHip = Some lh" and "joints c RightHip = Some rh"
    and "joints c LeftKnee = Some lk" and "joints c RightKnee = Some rk"
    and "bodies c Torso = Some torso" and "bodies c LeftArm = Some la"
    and "bodies c RightArm = Some ra"
    and "joints c LeftShoulder = Some ls" and "joints c RightShoulder = Some rs"
  shows "joints (applyInputForces t inp c) LeftShoulder =
           Some (ls\<lparr>motor := PositionHold ((- 3) * rotation torso + (- 2) * angvel torso + pi / 8)
                   (2 * SHOULDER_STIFFNESS) ((15 / 10) * SHOULDER_DAMPING)\<rparr>)
       \<and> joints (applyInputForces t inp c) RightShoulder =
           Some (rs\<lparr>motor := PositionHold ((- 3) * rotation torso + (- 2) * angvel torso + pi / 8)
                   (2 * SHOULDER_STIFFNESS) ((15 / 10) * SHOULDER_DAMPING)\<rparr>)
       \<and> 2 * SHOULDER_STIFFNESS = 16 \<and> (15 / 10) * SHOULDER_DAMPING = 18 / 10
       \<and> \<bar>leftArmTargetAngle (3 / 10) (- (5 / 10)) - 4927 / 10000\<bar> < 5 / 100000
       \<and> SHOULDER_MIN_ANGLE \<le> leftArmTargetAngle (3 / 10) (- (5 / 10))
       \<and> leftArmTargetAngle (3 / 10) (- (5 / 10)) \<le> SHOULDER_MAX_ANGLE"
proof -
  let ?s = "impulseTimer c + (t - lastTimestamp c) \<ge> impulseInterval c"
  let ?c1 = "c\<lparr>lastTimestamp := t,
          impulseTimer := (if ?s then 0 else impulseTimer c + (t - lastTimestamp c))\<rparr>"
  have unfold: "applyInputForces t inp c = applyArmBalancing (applyQWOPControls inp ?s ?c1)"
    using assms(1-4) by (simp add: applyInputForces_unfold)
  have pre: "bodies (applyQWOPControls inp ?s ?c1) Torso = Some torso"
    "bodies (applyQWOPControls inp ?s ?c1) LeftArm = Some la"
    "bodies (applyQWOPControls inp ?s ?c1) RightArm = Some ra"
    "joints (applyQWOPControls inp ?s ?c1) LeftShoulder = Some ls"
    "joints (applyQWOPControls inp ?s ?c1) RightShoulder = Some rs"
    using assms(5-9) by (simp_all add: applyQWOPControls_keeps_arm_inputs)
  have a: "joints (applyInputForces t inp c) LeftShoulder =
           Some (ls\<lparr>motor := PositionHold ((- 3) * rotation torso + (- 2) * angvel torso + pi / 8)
                   (2 * SHOULDER_STIFFNESS) ((15 / 10) * SHOULDER_DAMPING)\<rparr>)"
    unfolding unfold joints_applyArmBalancing_left [OF pre]
    by (simp add: leftArmTargetAngle_def SHOULDER_REST_ANGLE_def)
  have b: "joints (applyInputForces t inp c) RightShoulder =
           Some (rs\<lparr>motor := PositionHold ((- 3) * rotation torso + (- 2) * angvel torso + pi / 8)
                   (2 * SHOULDER_STIFFNESS) ((15 / 10) * SHOULDER_DAMPING)\<rparr>)"
    unfolding unfold joints_applyArmBalancing_right [OF pre]
    by (simp add: rightArmTargetAngle_def SHOULDER_REST_ANGLE_def)
  have c: "2 * SHOULDER_STIFFNESS = 16 \<and> (15 / 10) * SHOULDER_DAMPING = 18 / 10"
    by (simp add: SHOULDER_STIFFNESS_def SHOULDER_DAMPING_def)
  have val: "leftArmTargetAngle (3 / 10) (- (5 / 10)) = 1 / 10 + pi / 8"
    by (simp add: leftArmTargetAngle_def SHOULDER_REST_ANGLE_def)
  have d: "\<bar>leftArmTargetAngle (3 / 10) (- (5 / 10)) - 4927 / 10000\<bar> < 5 / 100000"
    unfolding val using pi_lower pi_upper by linarith
  have e: "SHOULDER_MIN_ANGLE \<le> leftArmTargetAngle (3 / 10) (- (5 / 10))
       \<and> leftArmTargetAngle (3 / 10) (- (5 / 10)) \<le> SHOULDER_MAX_ANGLE"
    unfolding val SHOULDER_MIN_ANGLE_def SHOULDER_MAX_ANGLE_def
    using pi_lower pi_upper by linarith
  show ?thesis
    using a b c d e by blast
qed


theorem balance_target_unclamped_witness:
  "joints standing LeftHip \<noteq> None \<and> joints standing RightHip \<noteq> None
   \<and> joints standing LeftKnee \<noteq> None \<and> joints standing RightKnee \<noteq> None
   \<and> bodies standing Torso \<noteq> None \<and> bodies standing LeftArm \<noteq> None
   \<and> bodies standing RightArm \<noteq> None
   \<and> joints standing LeftShoulder \<noteq> None \<and> joints standing RightShoulder \<noteq> None
   \<and> map_option motor (joints (applyInputForces 16 noKeys standing) LeftShoulder)
       = Some (PositionHold (pi / 8) 16 (18 / 10))
   \<and> map_option motor (joints (applyInputForces 16 noKeys standing) RightShoulder)
       = Some (PositionHold (pi / 8) 16 (18 / 10))"
proof -
  obtain lh rh lk rk ls rs where js: "joints standing LeftHip = Some lh"
    "joints standing RightHip = Some rh" "joints standing LeftKnee = Some lk"
    "joints standing RightKnee = Some rk"
    and sh: "joints standing LeftShoulder = Some ls" "joints standing RightShoulder = Some rs"
    using standing_joints by (meson not_None_eq)
  obtain torso la ra where bs: "bodies standing Torso = Some torso"
    "bodies standing LeftArm = Some la" "bodies standing RightArm = Some ra"
    using standing_bodies by (meson not_None_eq)
  have pose: "rotation torso = 0" "angvel torso = 0"
    using standing_torso_pose bs by simp_all
  show ?thesis
    using balance_target_unclamped [OF js bs sh, of 16 noKeys] js sh bs pose
    by simp
qed


text \<open>
  Claim C1 as stated fails where it says that the target is clamped to the shoulder's limits:
  with the torso leaning forward by one radian and not turning, the shoulder motor is told
  to hold \<open>3 + pi / 8\<close>, which is beyond the upper limit \<open>pi / 2\<close>.
\<close>

theorem balance_target_exceeds_limit:
  "map_option rotation (bodies (worldStep leaningForward standing) Torso) = Some (- 1)
   \<and> map_option angvel (bodies (worldStep leaningForward standing) Torso) = Some 0
   \<and> map_option motor
        (joints (applyInputForces 16 noKeys (worldStep leaningForward standing)) LeftShoulder)
       = Some (PositionHold (3 + pi / 8) 16 (18 / 10))
   \<and> SHOULDER_MAX_ANGLE < 3 + pi / 8"
proof -
  let ?c = "worldStep leaningForward standing"
  obtain lh rh lk rk ls rs where js: "joints ?c LeftHip = Some lh"
    "joints ?c RightHip = Some rh" "joints ?c LeftKnee = Some lk"
    "joints ?c RightKnee = Some rk"
    and sh: "joints ?c LeftShoulder = Some ls" "joints ?c RightShoulder = Some rs"
    using standing_joints by (metis not_None_eq worldStep_other(1))
  obtain torso la ra where bs0: "bodies standing Torso = Some torso"
    "bodies standing LeftArm = Some la" "bodies standing RightArm = Some ra"
    using standing_bodies by (meson not_None_eq)
  let ?f = "\<lambda>b. b\<lparr>translation := (0, - (35 / 10)), rotation := - 1, linvel := (0, 0), angvel := 0\<rparr>"
  have bs: "bodies ?c Torso = Some (?f torso)" "bodies ?c LeftArm = Some (?f la)"
    "bodies ?c RightArm = Some (?f ra)"
    using bs0 by (simp_all add: bodies_worldStep leaningForward_def)
  have "joints (applyInputForces 16 noKeys ?c) LeftShoulder =
      Some (ls\<lparr>motor := PositionHold (3 + pi / 8) 16 (18 / 10)\<rparr>)"
    using js sh bs
    by (simp add: applyInputForces_unfold applyQWOPControls_keeps_arm_inputs
        joints_applyArmBalancing_left [where torso = "?f torso" and la = "?f la" and ra = "?f ra"
          and ls = ls and rs = rs]
        leftArmTargetAngle_def SHOULDER_REST_ANGLE_def SHOULDER_STIFFNESS_def SHOULDER_DAMPING_def)
  moreover have "SHOULDER_MAX_ANGLE < 3 + pi / 8"
    using pi_less_4 by (simp add: SHOULDER_MAX_ANGLE_def)
  ultimately show ?thesis
    using bs by simp
qed

subsection \<open>Releasing a hip key\<close>

text \<open>
  Claim C2, as the code has it. On every call of \<^verbatim>\<open>applyInputForces\<close> on a character whose
  two hip and two knee joints exist, a hip whose key (Q for the left, W for the right) is
  not pressed is left with a velocity drive of target velocity 0 and maximal force 0.1.
\<close>

theorem hip_release_weak_velocity_drive:
  assumes "joints c LeftHip = Some lh" and "joints c RightHip = Some rh"
    and "joints c LeftKnee = Some lk" and "joints c RightKnee = Some rk"
  shows "(\<not> isKeyPressed inp KeyQ \<longrightarrow>
            joints (applyInputForces t inp c) LeftHip = Some (lh\<lparr>motor := VelocityDrive 0 (1 / 10)\<rparr>))
       \<and> (\<not> isKeyPressed inp KeyW \<longrightarrow>
            joints (applyInputForces t inp c) RightHip = Some (rh\<lparr>motor := VelocityDrive 0 (1 / 10)\<rparr>))"
  using assms
  by (simp add: joints_applyInputForces_leg joints_applyQWOPControls configureMotorVelocity_def
      disableJointMotor_def)


theorem hip_release_weak_velocity_drive_witness:
  "joints standing LeftHip \<noteq> None \<and> joints standing RightHip \<noteq> None
   \<and> joints standing LeftKnee \<noteq> None \<and> joints standing RightKnee \<noteq> None
   \<and> \<not> isKeyPressed holdW KeyQ
   \<and> map_option motor (joints (applyInputForces 16 holdW standing) LeftHip)
       = Some (VelocityDrive 0 (1 / 10))"
proof -
  obtain lh rh lk rk where js: "joints standing LeftHip = Some lh" "joints standing RightHip = Some rh"
    "joints standing LeftKnee = Some lk" "joints standing RightKnee = Some rk"
    using standing_joints by (meson not_None_eq)
  show ?thesis
    using hip_release_weak_velocity_drive [OF js, of holdW 16] js
    by (simp add: holdW_def isKeyPressed_def)
qed

text \<open>
  Claim C2 as stated fails: after a step with no key pressed the left hip of the standing
  character is not without a motor. It carries a velocity drive toward velocity 0 with force
  0.1, a weak brake that stays on the joint.
\<close>

theorem hip_release_not_disabled:
  "map_option motor (joints standing LeftHip) = Some (PositionHold 0 35 3)
   \<and> \<not> isKeyPressed noKeys KeyQ
   \<and> map_option motor (joints (applyInputForces 16 noKeys standing) LeftHip)
       = Some (VelocityDrive 0 (1 / 10))
   \<and> map_option motor (joints (applyInputForces 16 noKeys standing) LeftHip) \<noteq> Some Disabled"
proof -
  obtain lh rh lk rk where js: "joints standing LeftHip = Some lh" "joints standing RightHip = Some rh"
    "joints standing LeftKnee = Some lk" "joints standing RightKnee = Some rk"
    using standing_joints by (meson not_None_eq)
  have "joints (applyInputForces 16 noKeys standing) LeftHip = Some (lh\<lparr>motor := VelocityDrive 0 (1 / 10)\<rparr>)"
    using js by (simp add: joints_applyInputForces_leg joints_applyQWOPControls configureMotorVelocity_def
      disableJointMotor_def noKeys_def isKeyPressed_def)
  then show ?thesis
    using standing_motor by (simp add: noKeys_def isKeyPressed_def)
qed


subsection \<open>Releasing a knee key\<close>

text \<open>
  Claim C3, as the code has it. On every call of \<^verbatim>\<open>applyInputForces\<close> on a character whose two
  hip and two knee joints exist, a knee whose key (O for the left, P for the right) is
  not pressed is set to position hold at \<open>KNEE_REST_ANGLE = - 0.05\<close> with twice the nominal
  knee stiffness (20) and twice the nominal knee damping (2), in that same call; and so it
  is after every \<^verbatim>\<open>Game.update\<close> of a playing game whose character has these joints and a
  torso.
\<close>

theorem knee_release_position_hold:
  assumes "joints c LeftHip = Some lh" and "joints c RightHip = Some rh"
    and "joints c LeftKnee = Some lk" and "joints c RightKnee = Some rk"
  shows "(\<not> isKeyPressed inp KeyO \<longrightarrow>
            joints (applyInputForces t inp c) LeftKnee =
              Some (lk\<lparr>motor := PositionHold KNEE_REST_ANGLE (2 * KNEE_STIFFNESS) (2 * KNEE_DAMPING)\<rparr>))
       \<and> (\<not> isKeyPressed inp KeyP \<longrightarrow>
            joints (applyInputForces t inp c) RightKnee =
              Some (rk\<lparr>motor := PositionHold KNEE_REST_ANGLE (2 * KNEE_STIFFNESS) (2 * KNEE_DAMPING)\<rparr>))
       \<and> KNEE_REST_ANGLE = - (5 / 100) \<and> 2 * KNEE_STIFFNESS = 20 \<and> 2 * KNEE_DAMPING = 2
       \<and> (gameState g = PLAYING \<and> character g = c \<and> bodies c Torso \<noteq> None \<longrightarrow>
            (\<exists>g'. update fr g = Inr g'
               \<and> (\<not> isKeyPressed (input fr) KeyO \<longrightarrow>
                    joints (character g') LeftKnee =
                      Some (lk\<lparr>motor := PositionHold KNEE_REST_ANGLE (2 * KNEE_STIFFNESS)
                                (2 * KNEE_DAMPING)\<rparr>))
               \<and> (\<not> isKeyPressed (input fr) KeyP \<longrightarrow>
                    joints (character g') RightKnee =
                      Some (rk\<lparr>motor := PositionHold KNEE_REST_ANGLE (2 * KNEE_STIFFNESS)
                                (2 * KNEE_DAMPING)\<rparr>))))"
proof -
  have k: "\<not> isKeyPressed i KeyO \<longrightarrow>
            joints (applyInputForces u i c) LeftKnee =
              Some (lk\<lparr>motor := PositionHold KNEE_REST_ANGLE (2 * KNEE_STIFFNESS) (2 * KNEE_DAMPING)\<rparr>)"
    "\<not> isKeyPressed i KeyP \<longrightarrow>
            joints (applyInputForces u i c) RightKnee =
              Some (rk\<lparr>motor := PositionHold KNEE_REST_ANGLE (2 * KNEE_STIFFNESS) (2 * KNEE_DAMPING)\<rparr>)"
    for i u
    using assms
    by (simp_all add: joints_applyInputForces_leg joints_applyQWOPControls
        configureMotorPosition_def)
  have n: "KNEE_REST_ANGLE = - (5 / 100) \<and> 2 * KNEE_STIFFNESS = 20 \<and> 2 * KNEE_DAMPING = 2"
    by (simp add: KNEE_REST_ANGLE_def KNEE_STIFFNESS_def KNEE_DAMPING_def)
  have u: "\<exists>g'. update fr g = Inr g'
               \<and> (\<not> isKeyPressed (input fr) KeyO \<longrightarrow>
                    joints (character g') LeftKnee =
                      Some (lk\<lparr>motor := PositionHold KNEE_REST_ANGLE (2 * KNEE_STIFFNESS)
                                (2 * KNEE_DAMPING)\<rparr>))
               \<and> (\<not> isKeyPressed (input fr) KeyP \<longrightarrow>
                    joints (character g') RightKnee =
                      Some (rk\<lparr>motor := PositionHold KNEE_REST_ANGLE (2 * KNEE_STIFFNESS)
                                (2 * KNEE_DAMPING)\<rparr>))"
    if p: "gameState g = PLAYING" and c: "character g = c" and t: "bodies c Torso \<noteq> None"
  proof -
    obtain g' where g': "update fr g = Inr g'" "character g' = controlStep fr c"
      using update_character [of g fr] p c t by auto
    have "joints (character g') = joints (applyInputForces (clock fr) (input fr) c)"
      by (simp add: g'(2) controlStep_def worldStep_other)
    then show ?thesis
      using g'(1) k [of "input fr" "clock fr"] by simp
  qed
  show ?thesis
    using k [of inp t] n u by blast
qed

theorem knee_release_position_hold_witness:
  "joints standing LeftHip \<noteq> None \<and> joints standing RightHip \<noteq> None
   \<and> joints standing LeftKnee \<noteq> None \<and> joints standing RightKnee \<noteq> None
   \<and> \<not> isKeyPressed noKeys KeyO \<and> \<not> isKeyPressed noKeys KeyP
   \<and> map_option motor (joints standing LeftKnee) = Some (PositionHold (- (5 / 100)) 35 3)
   \<and> map_option motor (joints (applyInputForces 16 noKeys standing) LeftKnee)
       = Some (PositionHold (- (5 / 100)) 20 2)
   \<and> map_option motor (joints (applyInputForces 16 noKeys standing) RightKnee)
       = Some (PositionHold (- (5 / 100)) 20 2)
   \<and> gameState (start everyJointCreated 0 menuGame) = PLAYING
   \<and> joints (character (start everyJointCreated 0 menuGame)) LeftHip \<noteq> None
   \<and> joints (character (start everyJointCreated 0 menuGame)) RightHip \<noteq> None
   \<and> joints (character (start everyJointCreated 0 menuGame)) LeftKnee \<noteq> None
   \<and> joints (character (start everyJointCreated 0 menuGame)) RightKnee \<noteq> None
   \<and> bodies (character (start everyJointCreated 0 menuGame)) Torso \<noteq> None
   \<and> \<not> isKeyPressed (input strideFrame) KeyO
   \<and> (\<exists>g'. update strideFrame (start everyJointCreated 0 menuGame) = Inr g'
         \<and> map_option motor (joints (character g') LeftKnee)
             = Some (PositionHold (- (5 / 100)) 20 2))"
proof -
  let ?g = "start everyJointCreated 0 menuGame"
  obtain lh rh lk rk where js: "joints standing LeftHip = Some lh" "joints standing RightHip = Some rh"
    "joints standing LeftKnee = Some lk" "joints standing RightKnee = Some rk"
    using standing_joints by (meson not_None_eq)
  have p: "\<And>n. joints (character ?g) n \<noteq> None"
    by (simp add: start_def joints_reset_None everyJointCreated_def)
  then obtain lh' rh' lk' rk' where js': "joints (character ?g) LeftHip = Some lh'"
    "joints (character ?g) RightHip = Some rh'" "joints (character ?g) LeftKnee = Some lk'"
    "joints (character ?g) RightKnee = Some rk'"
    by (meson not_None_eq)
  have g: "gameState ?g = PLAYING" "bodies (character ?g) Torso \<noteq> None"
    by (simp_all add: start_state)
  have q: "\<not> isKeyPressed (input strideFrame) KeyO"
    by (simp add: strideFrame_def holdQ_def isKeyPressed_def)
  obtain g' where "update strideFrame ?g = Inr g'"
    "joints (character g') LeftKnee =
       Some (lk'\<lparr>motor := PositionHold KNEE_REST_ANGLE (2 * KNEE_STIFFNESS) (2 * KNEE_DAMPING)\<rparr>)"
    using knee_release_position_hold [OF js', of noKeys 16 ?g strideFrame] g q
    by auto
  then have "\<exists>g'. update strideFrame ?g = Inr g'
         \<and> map_option motor (joints (character g') LeftKnee)
             = Some (PositionHold (- (5 / 100)) 20 2)"
    by (auto simp add: KNEE_REST_ANGLE_def KNEE_STIFFNESS_def KNEE_DAMPING_def)
  then show ?thesis
    using knee_release_position_hold [OF js, of noKeys 16] js standing_motor g q p
    by (simp add: noKeys_def isKeyPressed_def)
qed

text \<open>
  Claim C3 as stated fails on a character with a joint missing: without the left hip joint
  the controller returns before it reaches the knees, and a step with P not pressed leaves
  the right knee, which exists, with no motor command at all.
\<close>

theorem knee_release_skipped_without_hip:
  "joints hipless LeftHip = None \<and> joints hipless RightKnee \<noteq> None
   \<and> \<not> isKeyPressed noKeys KeyP
   \<and> map_option motor (joints hipless RightKnee) = Some Disabled
   \<and> map_option motor (joints (applyInputForces 16 noKeys hipless) RightKnee) = Some Disabled"
proof -
  have "applyInputForces 16 noKeys hipless = hipless"
    using hipless_joints(1) by (simp add: applyInputForces_missing)
  then show ?thesis
    using hipless_joints by (simp add: noKeys_def isKeyPressed_def)
qed

subsection \<open>The arm swing\<close>

text \<open>
  Claim C4, as the code has it. When \<^verbatim>\<open>applyArmBalancing\<close> runs with the gate open
  (\<open>impulseTimer = 0\<close>) on a character with torso, arms, both shoulder joints and thighs,
  it compares the thighs' x offsets from the torso strictly: if the left thigh's is
  greater, the right arm receives the impulse \<open>(0.1, 0)\<close> and the left arm \<open>(- 0.05, 0)\<close>; if
  the right thigh's is greater, the left arm receives \<open>(0.1, 0)\<close> and the right arm
  \<open>(- 0.05, 0)\<close>; if they are equal no body changes. An impulse is appended to the list of
  those the body has received.
\<close>

theorem arm_swing_strict_comparison:
  assumes "bodies c Torso = Some torso" and "bodies c LeftArm = Some la"
    and "bodies c RightArm = Some ra"
    and "joints c LeftShoulder = Some ls" and "joints c RightShoulder = Some rs"
    and "bodies c LeftThigh = Some lt" and "bodies c RightThigh = Some rt"
    and "impulseTimer c = 0"
  shows "(fst (translation lt) - fst (translation torso) > fst (translation rt) - fst (translation torso) \<longrightarrow>
            bodies (applyArmBalancing c) RightArm = Some (applyImpulse (1 / 10, 0) ra)
          \<and> bodies (applyArmBalancing c) LeftArm = Some (applyImpulse (- (5 / 100), 0) la))
       \<and> (fst (translation rt) - fst (translation torso) > fst (translation lt) - fst (translation torso) \<longrightarrow>
            bodies (applyArmBalancing c) LeftArm = Some (applyImpulse (1 / 10, 0) la)
          \<and> bodies (applyArmBalancing c) RightArm = Some (applyImpulse (- (5 / 100), 0) ra))
       \<and> (fst (translation lt) - fst (translation torso) = fst (translation rt) - fst (translation torso) \<longrightarrow>
            bodies (applyArmBalancing c) = bodies c)
       \<and> impulses (applyImpulse v b) = impulses b @ [v]"
  using assms
  by (simp add: applyArmBalancing_def Let_def applyImpulse_fields)


theorem arm_swing_strict_comparison_witness:
  "impulseTimer (worldStep leftLegAhead standing) = 0
   \<and> joints (worldStep leftLegAhead standing) LeftShoulder \<noteq> None
   \<and> joints (worldStep leftLegAhead standing) RightShoulder \<noteq> None
   \<and> map_option impulses (bodies (worldStep leftLegAhead standing) LeftArm) = Some []
   \<and> map_option impulses (bodies (worldStep leftLegAhead standing) RightArm) = Some []
   \<and> map_option impulses (bodies (applyArmBalancing (worldStep leftLegAhead standing)) RightArm)
       = Some [(1 / 10, 0)]
   \<and> map_option impulses (bodies (applyArmBalancing (worldStep leftLegAhead standing)) LeftArm)
       = Some [(- (5 / 100), 0)]"
proof -
  let ?c = "worldStep leftLegAhead standing"
  let ?f = "\<lambda>n b. b\<lparr>translation := newTranslation (leftLegAhead n),
    rotation := newRotation (leftLegAhead n), linvel := newLinvel (leftLegAhead n),
    angvel := newAngvel (leftLegAhead n)\<rparr>"
  obtain torso la ra lt rt where bs: "bodies standing Torso = Some torso"
    "bodies standing LeftArm = Some la" "bodies standing RightArm = Some ra"
    "bodies standing LeftThigh = Some lt" "bodies standing RightThigh = Some rt"
    using standing_bodies by (meson not_None_eq)
  have bc: "bodies ?c Torso = Some (?f Torso torso)" "bodies ?c LeftArm = Some (?f LeftArm la)"
    "bodies ?c RightArm = Some (?f RightArm ra)" "bodies ?c LeftThigh = Some (?f LeftThigh lt)"
    "bodies ?c RightThigh = Some (?f RightThigh rt)"
    using bs by (simp_all add: bodies_worldStep)
  obtain ls rs where js: "joints ?c LeftShoulder = Some ls" "joints ?c RightShoulder = Some rs"
    using standing_joints by (metis not_None_eq worldStep_other(1))
  have imp: "impulses la = []" "impulses ra = []"
    using standing_impulses(2) [of LeftArm] standing_impulses(2) [of RightArm] bs by simp_all
  have t0: "impulseTimer ?c = 0"
    by (simp add: worldStep_other standing_gate)
  show ?thesis
    using arm_swing_strict_comparison [OF bc(1,2,3) js bc(4,5) t0] bc js imp t0
    by (simp add: leftLegAhead_def applyImpulse_fields)
qed

text \<open>
  Claim C4 as stated fails on a character with a shoulder joint missing: with the gate open
  and the right thigh ahead of the left one, no arm receives an impulse, on the call of
  \<^verbatim>\<open>applyArmBalancing\<close> and on a whole \<^verbatim>\<open>applyInputForces\<close> whose timer opens the gate.
\<close>

theorem arm_swing_skipped_without_shoulder:
  "joints shoulderless LeftShoulder = None
   \<and> bodies shoulderless LeftArm \<noteq> None \<and> bodies shoulderless RightArm \<noteq> None
   \<and> impulseTimer shoulderless = 0
   \<and> map_option translation (bodies shoulderless Torso) = Some (0, - (35 / 10))
   \<and> map_option translation (bodies shoulderless LeftThigh) = Some (- (3 / 40), - (161 / 40))
   \<and> map_option translation (bodies shoulderless RightThigh) = Some (3 / 40, - (161 / 40))
   \<and> map_option impulses (bodies (applyArmBalancing shoulderless) LeftArm) = Some []
   \<and> map_option impulses (bodies (applyArmBalancing shoulderless) RightArm) = Some []
   \<and> impulseTimer (applyInputForces 100 noKeys shoulderless) = 0
   \<and> map_option impulses (bodies (applyInputForces 100 noKeys shoulderless) LeftArm) = Some []
   \<and> map_option impulses (bodies (applyInputForces 100 noKeys shoulderless) RightArm) = Some []"
proof -
  have a: "applyArmBalancing shoulderless = shoulderless"
    using shoulderless_facts(1) by (simp add: applyArmBalancing_missing)
  have i: "applyInputForces 100 noKeys shoulderless =
      applyQWOPControls noKeys True (shoulderless\<lparr>lastTimestamp := 100, impulseTimer := 0\<rparr>)"
    using applyInputForces_no_shoulder [OF shoulderless_facts(2-5), of 100 noKeys]
      shoulderless_facts(1)
    by (simp add: shoulderless_facts)
  show ?thesis
    unfolding a i
    using shoulderless_facts
    by (simp add: gate_applyQWOPControls bodies_applyQWOPControls_other)
qed

subsection \<open>The fall detector\<close>

text \<open>
  Claim C5. The head is placed at the torso position plus the offset 0.4 (half the torso
  height plus a neck of 0.1) turned by the torso rotation:
  \<open>headX = x - sin r \<cdot> 0.4\<close> and \<open>headY = y + cos r \<cdot> 0.4\<close>. The detector reports a fall exactly
  when \<open>headY - 0.15 \<le> - 4.8\<close> (a character without a torso never falls). With the torso at
  \<open>y = - 3.5\<close> and rotation 0 the head's bottom is at \<open>- 3.25\<close> and the run goes on.
\<close>

theorem fall_detector_head_position:
  "headX p r = fst p - sin r * (4 / 10)
   \<and> headY p r = snd p + cos r * (4 / 10)
   \<and> isHeadTouchingGround c =
       (case bodies c Torso of
          None \<Rightarrow> False
        | Some t \<Rightarrow> headY (translation t) (rotation t) - 15 / 100 \<le> - (48 / 10))
   \<and> headY (x, - (35 / 10)) 0 - 15 / 100 = - (325 / 100)
   \<and> isHeadTouchingGround
       (c\<lparr>bodies := (bodies c)(Torso := Some (t\<lparr>translation := (x, - (35 / 10)), rotation := 0\<rparr>))\<rparr>)
       = False"
  by (simp add: headX_def headY_def isHeadTouchingGround_def torsoHeadOffset_def
      headRadius_def TORSO_HEIGHT_def HEAD_GROUND_THRESHOLD_def split: option.splits)

subsection \<open>The impulse gate\<close>

text \<open>
  Claim C6, as the code has it. The gate is driven by the clock readings of the calls, not
  by their number. For a character with \<open>impulseInterval = 80\<close> and a timer that is not
  negative: over any successive updates whose clock never runs backwards, whatever their
  rate, the keys and the engine's results, 80 times the number of kick impulses a thigh or
  a calf receives is at most the timer at the start plus the time elapsed, so each limb is
  kicked at most once per 80 ms. And when all hip and knee joints and the left thigh exist
  and Q is held through 30 updates whose clock readings are \<open>1000 / 60\<close> ms apart (500 ms at
  60 Hz), the left thigh receives exactly 6 kicks, not 30.
\<close>

theorem impulse_gate_kicks:
  assumes "impulseInterval c = 80" and "0 \<le> impulseTimer c"
  shows "(sorted (lastTimestamp c # map clock frs) \<longrightarrow>
            80 * real (kicks LeftThigh (simulate frs c))
              \<le> 80 * real (kicks LeftThigh c) + impulseTimer c
                  + (lastTimestamp (simulate frs c) - lastTimestamp c)
          \<and> 80 * real (kicks RightThigh (simulate frs c))
              \<le> 80 * real (kicks RightThigh c) + impulseTimer c
                  + (lastTimestamp (simulate frs c) - lastTimestamp c)
          \<and> 80 * real (kicks LeftCalf (simulate frs c))
              \<le> 80 * real (kicks LeftCalf c) + impulseTimer c
                  + (lastTimestamp (simulate frs c) - lastTimestamp c)
          \<and> 80 * real (kicks RightCalf (simulate frs c))
              \<le> 80 * real (kicks RightCalf c) + impulseTimer c
                  + (lastTimestamp (simulate frs c) - lastTimestamp c))
       \<and> (joints c LeftHip \<noteq> None \<and> joints c RightHip \<noteq> None \<and> joints c LeftKnee \<noteq> None
            \<and> joints c RightKnee \<noteq> None \<and> bodies c LeftThigh \<noteq> None
            \<and> (\<forall>i. isKeyPressed (inp i) KeyQ) \<longrightarrow>
          kicks LeftThigh (simulate (steadyFrames (lastTimestamp c) (1000 / 60) inp w 30) c)
            = kicks LeftThigh c + 6)"
proof -
  have "kicks LeftThigh (simulate (steadyFrames (lastTimestamp c) (1000 / 60) inp w 30) c)
            = kicks LeftThigh c + 6"
    if j: "joints c LeftHip \<noteq> None" "joints c RightHip \<noteq> None" "joints c LeftKnee \<noteq> None"
      "joints c RightKnee \<noteq> None" "bodies c LeftThigh \<noteq> None"
      and q: "\<forall>i. isKeyPressed (inp i) KeyQ"
  proof -
    have "\<forall>fr \<in> set (steadyFrames (lastTimestamp c) (1000 / 60) inp w 30).
        isKeyPressed (input fr) KeyQ"
      using q input_steadyFrames by metis
    from kicks_simulate_gateCount [OF j this] show ?thesis
      using assms by (simp only: gate_steady_30)
  qed
  then show ?thesis
    using kicks_bound [OF assms, of frs] by simp
qed

theorem impulse_gate_kicks_witness:
  "impulseInterval standing = 80 \<and> 0 \<le> impulseTimer standing
   \<and> joints standing LeftHip \<noteq> None \<and> joints standing RightHip \<noteq> None
   \<and> joints standing LeftKnee \<noteq> None \<and> joints standing RightKnee \<noteq> None
   \<and> bodies standing LeftThigh \<noteq> None \<and> isKeyPressed (alwaysQ 0) KeyQ
   \<and> kicks LeftThigh standing = 0
   \<and> kicks LeftThigh (simulate (steadyFrames 0 (1000 / 60) alwaysQ restingWorld 30) standing) = 6
   \<and> sorted (lastTimestamp standing
         # map clock (steadyFrames 0 (1000 / 60) alwaysQ restingWorld 30))
   \<and> impulseTimer standing = 0 \<and> lastTimestamp standing = 0
   \<and> 80 * real (kicks LeftThigh
                    (simulate (steadyFrames 0 (1000 / 60) alwaysQ restingWorld 30) standing))
       \<le> lastTimestamp (simulate (steadyFrames 0 (1000 / 60) alwaysQ restingWorld 30) standing)"
proof -
  let ?frs = "steadyFrames 0 (1000 / 60) alwaysQ restingWorld 30"
  have k0: "kicks LeftThigh standing = 0"
    using standing_impulses(2) [of LeftThigh] by (auto simp add: kicks_def split: option.splits)
  have q: "\<forall>i. isKeyPressed (alwaysQ i) KeyQ"
    by (simp add: alwaysQ_def holdQ_def isKeyPressed_def)
  have t: "0 \<le> impulseTimer standing"
    by (simp add: standing_gate)
  have s: "sorted (lastTimestamp standing # map clock ?frs)"
    by (simp add: standing_gate eval_nat_numeral)
  have b: "80 * real (kicks LeftThigh (simulate ?frs standing))
       \<le> lastTimestamp (simulate ?frs standing)"
    using impulse_gate_kicks [OF standing_gate(3) t, of ?frs alwaysQ restingWorld] s k0
    by (simp add: standing_gate)
  from impulse_gate_kicks [OF standing_gate(3) t, of "[]" alwaysQ restingWorld]
  have "kicks LeftThigh (simulate ?frs standing) = 6"
    using k0 q standing_joints standing_bodies by (simp add: standing_gate)
  then show ?thesis
    using k0 q standing_joints standing_bodies s b by (simp add: standing_gate)
qed

text \<open>
  Claim C6 as stated fails where it makes the count of 6 depend on nothing but the 500 ms
  and the step rate. Without the left hip joint the same 30 updates give the left thigh no
  kick. And on the complete character 30 updates in 500 ms, issued two at a time at clock
  readings \<open>1000 / 30\<close> ms apart, give it 5 kicks.
\<close>

theorem impulse_gate_count_depends_on_schedule:
  "joints hipless LeftHip = None
   \<and> kicks LeftThigh hipless = 0
   \<and> kicks LeftThigh (simulate (steadyFrames 0 (1000 / 60) alwaysQ restingWorld 30) hipless) = 0
   \<and> length (burstFrames 0 (1000 / 30) 15) = 30
   \<and> sorted (map clock (burstFrames 0 (1000 / 30) 15))
   \<and> last (map clock (burstFrames 0 (1000 / 30) 15)) = 500
   \<and> kicks LeftThigh standing = 0
   \<and> kicks LeftThigh (simulate (burstFrames 0 (1000 / 30) 15) standing) = 5"
proof -
  have h: "kicks LeftThigh hipless = 0"
    using hipless_unstabilised(4) [of LeftThigh]
    by (auto simp add: kicks_def split: option.splits)
  have k0: "kicks LeftThigh standing = 0"
    using standing_impulses(2) [of LeftThigh] by (auto simp add: kicks_def split: option.splits)
  have q: "\<forall>fr \<in> set (burstFrames 0 (1000 / 30) 15). isKeyPressed (input fr) KeyQ"
    using input_burstFrames by (auto simp add: holdQ_def isKeyPressed_def)
  have g: "gateCount 80 0 0 (map clock (burstFrames 0 (1000 / 30) 15)) = 5"
    by (simp add: eval_nat_numeral)
  have "kicks LeftThigh (simulate (burstFrames 0 (1000 / 30) 15) standing) = 5"
    using kicks_simulate_gateCount [OF standing_joints standing_joints standing_joints
        standing_joints standing_bodies q] k0 g
    by (simp add: standing_gate)
  moreover have "length (burstFrames 0 (1000 / 30) 15) = 30"
    "sorted (map clock (burstFrames 0 (1000 / 30) 15))"
    "last (map clock (burstFrames 0 (1000 / 30) 15)) = 500"
    by (simp_all add: eval_nat_numeral)
  ultimately show ?thesis
    using h k0 hipless_joints(1) by (simp add: kicks_simulate_missing)
qed

subsection \<open>Reset\<close>

text \<open>
  Claim C7, as the code has it. \<^verbatim>\<open>reset\<close> is \<^verbatim>\<open>stabilizeJoints\<close> after the rebuilding of
  bodies and joints. At the point between the two, every body has linear velocity
  \<open>(0, 0)\<close>, angular velocity 0 and has received no impulse, and the torso is at the spawn
  point \<open>(0, - 3.5)\<close>. When \<^verbatim>\<open>reset\<close> returns, the torso is at the spawn point and every body has
  angular velocity 0; every body but the torso has linear velocity \<open>(0, 0)\<close> and has
  received no impulse; the torso has received the impulse \<open>(0, 1.5)\<close> and moves upward at
  \<open>1.5 / 0.216 = 125 / 18\<close> whenever \<^verbatim>\<open>stabilizeJoints\<close> ran to its end (the right shoulder was
  built if the left one was, and both hips and both knees were), and is at rest otherwise.
\<close>

theorem reset_zero_velocity_at_spawn:
  "(case bodies (rebuild ok c) n of
      None \<Rightarrow> False
    | Some b \<Rightarrow> linvel b = (0, 0) \<and> angvel b = 0 \<and> impulses b = [])
   \<and> map_option translation (bodies (rebuild ok c) Torso) = Some (0, - (35 / 10))
   \<and> reset ok now c = stabilizeJoints now (rebuild ok c)
   \<and> (case bodies (reset ok now c) n of
         None \<Rightarrow> False
       | Some b \<Rightarrow>
           angvel b = 0
           \<and> linvel b =
               (if n = Torso \<and> (if ok LeftShoulder then ok RightShoulder else True)
                   \<and> ok LeftHip \<and> ok RightHip \<and> ok LeftKnee \<and> ok RightKnee
                then (0, 125 / 18) else (0, 0))
           \<and> impulses b =
               (if n = Torso \<and> (if ok LeftShoulder then ok RightShoulder else True)
                   \<and> ok LeftHip \<and> ok RightHip \<and> ok LeftKnee \<and> ok RightKnee
                then [(0, 15 / 10)] else []))
   \<and> map_option translation (bodies (reset ok now c) Torso) = Some (0, - (35 / 10))"
proof -
  obtain b where b: "bodies (createPhysicsBodies c) n = Some b"
    using bodies_createPhysicsBodies_present [of c n] by auto
  note fb = created_body [OF b]
  obtain t where t: "bodies (createPhysicsBodies c) Torso = Some t"
    using bodies_createPhysicsBodies_present [of c Torso] by auto
  have tt: "translation t = (0, - (35 / 10))" "mass t = 216 / 1000"
    using created_torso [of c] t by simp_all
  have tm: "n = Torso \<Longrightarrow>
      linvel (applyImpulse (0, 15 / 10) (b\<lparr>linearDamping := 1, angularDamping := 1\<rparr>))
        = (0, 125 / 18)"
  proof -
    assume "n = Torso"
    then have "mass b = 216 / 1000"
      using b t tt by simp
    then show ?thesis
      using fb by (intro torso_push) simp_all
  qed
  have 1: "(case bodies (rebuild ok c) n of
      None \<Rightarrow> False
    | Some b \<Rightarrow> linvel b = (0, 0) \<and> angvel b = 0 \<and> impulses b = [])"
    using b fb by (simp add: bodies_rebuild)
  have 2: "map_option translation (bodies (rebuild ok c) Torso) = Some (0, - (35 / 10))"
    by (simp add: bodies_rebuild created_torso)
  have 3: "reset ok now c = stabilizeJoints now (rebuild ok c)"
    by (simp add: reset_def)
  have 4: "(case bodies (reset ok now c) n of
         None \<Rightarrow> False
       | Some b \<Rightarrow>
           angvel b = 0
           \<and> linvel b =
               (if n = Torso \<and> (if ok LeftShoulder then ok RightShoulder else True)
                   \<and> ok LeftHip \<and> ok RightHip \<and> ok LeftKnee \<and> ok RightKnee
                then (0, 125 / 18) else (0, 0))
           \<and> impulses b =
               (if n = Torso \<and> (if ok LeftShoulder then ok RightShoulder else True)
                   \<and> ok LeftHip \<and> ok RightHip \<and> ok LeftKnee \<and> ok RightKnee
                then [(0, 15 / 10)] else []))"
    using b fb tm
    by (simp add: bodies_reset bodies_stabilizeBodies bodies_rebuild stabilizes_rebuild
        applyImpulse_others)
  have 5: "map_option translation (bodies (reset ok now c) Torso) = Some (0, - (35 / 10))"
    using t tt
    by (simp add: bodies_reset bodies_stabilizeBodies bodies_rebuild applyImpulse_fields)
  show ?thesis
    using 1 2 3 4 5 by blast
qed

text \<open>
  Claim C7 as stated fails: when \<^verbatim>\<open>reset\<close> returns on the standing character, the torso has
  already been handed the stabilisation impulse \<open>(0, 1.5)\<close> and its linear velocity is
  \<open>(0, 125 / 18)\<close>, about 6.94 upward, not zero.
\<close>

theorem reset_applies_stabilisation_impulse:
  "map_option impulses (bodies (reset everyJointCreated 1000 standing) Torso)
     = Some [(0, 15 / 10)]
   \<and> map_option linvel (bodies (reset everyJointCreated 1000 standing) Torso)
     = Some (0, 125 / 18)"
proof -
  obtain b where b: "bodies (createPhysicsBodies standing) Torso = Some b"
    using bodies_createPhysicsBodies_present [of standing Torso] by auto
  have "mass b = 216 / 1000"
    using created_torso(2) [of standing] b by simp
  then have "linvel (applyImpulse (0, 15 / 10) (b\<lparr>linearDamping := 1, angularDamping := 1\<rparr>))
        = (0, 125 / 18)"
    using created_body [OF b] by (intro torso_push) simp_all
  then show ?thesis
    using b created_body [OF b]
    by (simp add: bodies_reset bodies_stabilizeBodies bodies_rebuild stabilizes_rebuild
        everyJointCreated_def applyImpulse_others)
qed

text \<open>
  Claim C8 does not hold of the code. The phases of stabilisation are callbacks on the
  host's timers, and \<^verbatim>\<open>reset\<close> cancels none of them and keeps the impulse gate's timer and
  timestamp. With \<^verbatim>\<open>init\<close> at clock 0 and a \<^verbatim>\<open>reset\<close> at clock 300, the callback that \<^verbatim>\<open>init\<close>
  scheduled is still pending after the reset, beside the one of the reset itself that is
  due at 800; when it fires at clock 500 it lowers the damping of the rebuilt torso from 1
  to 0.5.
\<close>

theorem stale_phase_mutates_new_skeleton:
  "timers standing = [(500, ReduceDamping)]
   \<and> timers (reset everyJointCreated 300 standing) = [(500, ReduceDamping), (800, ReduceDamping)]
   \<and> map_option linearDamping (bodies (reset everyJointCreated 300 standing) Torso) = Some 1
   \<and> map_option angularDamping (bodies (reset everyJointCreated 300 standing) Torso) = Some 1
   \<and> map_option linearDamping
        (bodies (fireTimers 500 (reset everyJointCreated 300 standing)) Torso) = Some (5 / 10)
   \<and> map_option angularDamping
        (bodies (fireTimers 500 (reset everyJointCreated 300 standing)) Torso) = Some (5 / 10)
   \<and> timers (fireTimers 500 (reset everyJointCreated 300 standing))
        = [(800, ReduceDamping), (1000, NormalDamping)]
   \<and> impulseTimer (reset ok now c) = impulseTimer c
   \<and> lastTimestamp (reset ok now c) = lastTimestamp c
   \<and> timers (reset everyJointCreated now c) = timers c @ [(now + 500, ReduceDamping)]"
proof -
  let ?c = "reset everyJointCreated 300 standing"
  have t: "timers ?c = [(500, ReduceDamping), (800, ReduceDamping)]"
    by (simp add: timers_reset stabilizes_every timers_standing)
  obtain b where b: "bodies ?c Torso = Some b"
    and d: "linearDamping b = 1" "angularDamping b = 1"
    using damping_reset_every [of 300 standing Torso] by auto
  have f: "fireTimers 500 ?c =
      runCallback 500 ReduceDamping (?c\<lparr>timers := [(800, ReduceDamping)]\<rparr>)"
    by (simp add: fireTimers_def t)
  have "bodies (fireTimers 500 ?c) Torso =
      Some (b\<lparr>linearDamping := 5 / 10, angularDamping := 5 / 10\<rparr>)"
    unfolding f using b
    by (simp add: forEachBody_def setLinearDamping_def setAngularDamping_def)
  moreover have "timers (fireTimers 500 ?c) = [(800, ReduceDamping), (1000, NormalDamping)]"
    unfolding f by simp
  ultimately show ?thesis
    using t b d by (simp add: timers_standing gate_reset timers_reset stabilizes_every)
qed

subsection \<open>Missing joints\<close>

text \<open>
  Claim C9, as the code has it. A joint that was not built stays missing: through
  \<^verbatim>\<open>stabilizeJoints\<close>, through \<^verbatim>\<open>reset\<close> when the engine fails again, and through all later
  updates. \<^verbatim>\<open>applyJointMotor\<close>, \<^verbatim>\<open>disableJointMotor\<close> and the blocks of \<^verbatim>\<open>applyQWOPControls\<close>
  do nothing on a missing joint. \<^verbatim>\<open>stabilizeJoints\<close> does not test every joint it calls: a
  call on a missing right shoulder (the left one being there), hip or knee throws inside
  its \<^verbatim>\<open>try\<close>, the \<^verbatim>\<open>catch\<close> absorbs it, and the rest of the stabilisation is skipped, so that no
  body gets damping or an impulse and no timer is scheduled; without the left hip, the hips
  and knees keep the motor they had. If a hip or knee joint is missing,
  \<^verbatim>\<open>applyInputForces\<close> leaves the whole character as it is: no joint is driven, no impulse is
  applied, the gate does not advance. If the hips and knees exist and a shoulder is
  missing, the hips and knees are controlled as usual and arm balancing is skipped for both
  arms. The ankles are never commanded. No sequence of updates throws as long as the torso
  exists.
\<close>

theorem joint_failure_stops_controller:
  "applyJointMotor None v f = None \<and> disableJointMotor None = None
   \<and> (joints c n = None \<longrightarrow>
        joints (applyQWOPControls inp s c) n = None \<and> joints (stabilizeJoints now c) n = None
        \<and> joints (simulate frs c) n = None)
   \<and> (\<not> stabilizes c \<longrightarrow>
        bodies (stabilizeJoints now c) = bodies c \<and> timers (stabilizeJoints now c) = timers c)
   \<and> (joints c LeftHip = None \<longrightarrow>
        joints (stabilizeJoints now c) RightHip = joints c RightHip
        \<and> joints (stabilizeJoints now c) LeftKnee = joints c LeftKnee
        \<and> joints (stabilizeJoints now c) RightKnee = joints c RightKnee)
   \<and> (joints (reset ok now c0) n = None) = (\<not> ok n)
   \<and> stabilizes (rebuild ok c0) =
        ((if ok LeftShoulder then ok RightShoulder else True)
         \<and> ok LeftHip \<and> ok RightHip \<and> ok LeftKnee \<and> ok RightKnee)
   \<and> (\<not> stabilizes (rebuild ok c0) \<longrightarrow>
        bodies (reset ok now c0) = bodies (createPhysicsBodies c0)
        \<and> timers (reset ok now c0) = timers c0)
   \<and> (joints c LeftHip = None \<or> joints c RightHip = None \<or> joints c LeftKnee = None
        \<or> joints c RightKnee = None \<longrightarrow> applyInputForces t inp c = c)
   \<and> (joints c LeftHip \<noteq> None \<and> joints c RightHip \<noteq> None \<and> joints c LeftKnee \<noteq> None
        \<and> joints c RightKnee \<noteq> None
        \<and> (joints c LeftShoulder = None \<or> joints c RightShoulder = None) \<longrightarrow>
      applyInputForces t inp c =
        applyQWOPControls inp (impulseTimer c + (t - lastTimestamp c) \<ge> impulseInterval c)
          (c\<lparr>lastTimestamp := t,
             impulseTimer := (if impulseTimer c + (t - lastTimestamp c) \<ge> impulseInterval c
                              then 0 else impulseTimer c + (t - lastTimestamp c))\<rparr>))
   \<and> joints (applyInputForces t inp c) LeftAnkle = joints c LeftAnkle
   \<and> joints (applyInputForces t inp c) RightAnkle = joints c RightAnkle
   \<and> (bodies (character g) Torso \<noteq> None \<longrightarrow> (\<exists>g'. run frs g = Inr g'))"
proof -
  have m: "joints (applyQWOPControls inp s c) n = None \<and> joints (stabilizeJoints now c) n = None
        \<and> joints (simulate frs c) n = None" if "joints c n = None"
    using that by (simp add: present_applyQWOPControls stabilizeJoints_present simulate_missing)
  have st: "bodies (stabilizeJoints now c) = bodies c \<and> timers (stabilizeJoints now c) = timers c"
    if "\<not> stabilizes c"
    using that by (simp add: stabilizeJoints_aborts)
  have h: "joints (stabilizeJoints now c) RightHip = joints c RightHip
        \<and> joints (stabilizeJoints now c) LeftKnee = joints c LeftKnee
        \<and> joints (stabilizeJoints now c) RightKnee = joints c RightKnee"
    if "joints c LeftHip = None"
    using that by (simp add: stabilizeJoints_hip_abort)
  have r0: "bodies (reset ok now c0) = bodies (createPhysicsBodies c0)
        \<and> timers (reset ok now c0) = timers c0"
    if "\<not> stabilizes (rebuild ok c0)"
    using that by (simp add: reset_def stabilizeJoints_aborts bodies_rebuild rebuild_other)
  have b: "joints (applyInputForces t inp c) LeftAnkle = joints c LeftAnkle"
    "joints (applyInputForces t inp c) RightAnkle = joints c RightAnkle"
    by (simp_all add: applyInputForces_def Let_def joints_applyArmBalancing_other
        joints_applyQWOPControls)
  have r: "\<exists>g'. run frs g = Inr g'" if "bodies (character g) Torso \<noteq> None"
  proof (cases "gameState g = PLAYING")
    case True
    then show ?thesis
      using run_playing [OF True that, of frs] by blast
  next
    case False
    then show ?thesis
      by (simp add: run_not_playing)
  qed
  have 1: "applyJointMotor None v f = None \<and> disableJointMotor None = None"
    by (simp add: applyJointMotor_def disableJointMotor_def)
  show ?thesis
    using 1 m st h r0 b r applyInputForces_missing [of c t inp]
      applyInputForces_no_shoulder [of c t inp] joints_reset_None [of ok now c0 n]
      stabilizes_rebuild [of ok c0]
    by blast
qed

theorem joint_failure_stops_controller_witness:
  "joints hipless LeftHip = None
   \<and> hipless = reset leftHipFails 0 (newCharacter 0)
   \<and> \<not> stabilizes (rebuild leftHipFails (newCharacter 0))
   \<and> bodies hipless = bodies (createPhysicsBodies (newCharacter 0))
   \<and> timers hipless = []
   \<and> applyInputForces 16 holdW hipless = hipless
   \<and> joints (simulate [strideFrame, fallFrame] hipless) LeftHip = None
   \<and> gameState (start leftHipFails 0 menuGame) = PLAYING
   \<and> joints (character (start leftHipFails 0 menuGame)) LeftHip = None
   \<and> bodies (character (start leftHipFails 0 menuGame)) Torso \<noteq> None
   \<and> (\<exists>g'. run [strideFrame, fallFrame] (start leftHipFails 0 menuGame) = Inr g')
   \<and> joints shoulderless LeftShoulder = None
   \<and> joints shoulderless LeftHip \<noteq> None \<and> joints shoulderless RightHip \<noteq> None
   \<and> joints shoulderless LeftKnee \<noteq> None \<and> joints shoulderless RightKnee \<noteq> None
   \<and> applyInputForces 100 holdW shoulderless =
         applyQWOPControls holdW True (shoulderless\<lparr>lastTimestamp := 100, impulseTimer := 0\<rparr>)"
proof -
  have e: "hipless = reset leftHipFails 0 (newCharacter 0)"
    by (simp add: hipless_def init_eq_reset)
  have j: "joints (character (start leftHipFails 0 menuGame)) LeftHip = None"
    by (simp add: start_def joints_reset_None leftHipFails_def)
  have s: "applyInputForces 100 holdW shoulderless =
      applyQWOPControls holdW True (shoulderless\<lparr>lastTimestamp := 100, impulseTimer := 0\<rparr>)"
    using joint_failure_stops_controller [where c = shoulderless and t = 100 and inp = holdW]
      shoulderless_facts(1-5)
    by (simp add: shoulderless_facts(6-8))
  have h: "joints hipless LeftHip = None
   \<and> hipless = reset leftHipFails 0 (newCharacter 0)
   \<and> \<not> stabilizes (rebuild leftHipFails (newCharacter 0))
   \<and> bodies hipless = bodies (createPhysicsBodies (newCharacter 0))
   \<and> timers hipless = []
   \<and> applyInputForces 16 holdW hipless = hipless
   \<and> joints (simulate [strideFrame, fallFrame] hipless) LeftHip = None
   \<and> gameState (start leftHipFails 0 menuGame) = PLAYING
   \<and> joints (character (start leftHipFails 0 menuGame)) LeftHip = None
   \<and> bodies (character (start leftHipFails 0 menuGame)) Torso \<noteq> None
   \<and> (\<exists>g'. run [strideFrame, fallFrame] (start leftHipFails 0 menuGame) = Inr g')"
    using joint_failure_stops_controller
      [where c = hipless and n = LeftHip and ok = leftHipFails and now = 0
        and ?c0.0 = "newCharacter 0" and t = 16 and inp = holdW
        and frs = "[strideFrame, fallFrame]" and g = "start leftHipFails 0 menuGame"]
      hipless_joints(1) hipless_unstabilised(1) e j start_state(1,5) [of leftHipFails 0 menuGame]
    by (simp add: newCharacter_def)
  show ?thesis
    using h s shoulderless_facts(1-5) by blast
qed

text \<open>
  Claim C9 as stated fails where it says that only the limb of the missing joint goes
  passive: without the left hip joint, holding W does not drive the right hip, which a
  complete character drives at velocity 20 with force 100.
\<close>

theorem joint_failure_idles_other_limbs:
  "joints hipless LeftHip = None \<and> joints hipless RightKnee \<noteq> None
   \<and> isKeyPressed holdW KeyW
   \<and> map_option motor (joints hipless RightHip) = Some Disabled
   \<and> map_option motor (joints (applyInputForces 16 holdW hipless) RightHip) = Some Disabled
   \<and> map_option motor (joints (applyInputForces 16 holdW standing) RightHip)
       = Some (VelocityDrive 20 100)"
proof -
  have "applyInputForces 16 holdW hipless = hipless"
    using hipless_joints(1) by (simp add: applyInputForces_missing)
  moreover obtain lh rh lk rk where js: "joints standing LeftHip = Some lh"
    "joints standing RightHip = Some rh" "joints standing LeftKnee = Some lk"
    "joints standing RightKnee = Some rk"
    using standing_joints by (meson not_None_eq)
  have "joints (applyInputForces 16 holdW standing) RightHip =
      Some (rh\<lparr>motor := VelocityDrive 20 100\<rparr>)"
    using js
    by (simp add: joints_applyInputForces_leg joints_applyQWOPControls applyJointMotor_def
        configureMotorVelocity_def holdW_def isKeyPressed_def MAX_MOTOR_VELOCITY_def
        JOINT_MOTOR_MAX_FORCE_def)
  ultimately show ?thesis
    using hipless_joints by (simp add: holdW_def isKeyPressed_def)
qed

subsection \<open>The score\<close>

text \<open>
  Claim C10, as the code has it. From any playing game with a torso, successive updates
  never throw; the scores handed to the display grow strictly, each being a torso x
  position that exceeded the maximum recorded before it; the recorded maximum is the last
  of them; and it equals the largest of the starting maximum and the torso x positions read
  at the updates before the first one that detected a fall. That update ends the game, shows
  the recorded maximum as the final score and does not read the torso position.
\<close>

theorem score_is_maximum_before_fall:
  assumes "gameState g = PLAYING" and "bodies (character g) Torso \<noteq> None"
  shows "\<exists>g' new. run frs g = Inr g'
     \<and> scoreUpdates g' = scoreUpdates g @ new
     \<and> sorted_wrt (<) (maxDistance g # new)
     \<and> maxDistance g' = last (maxDistance g # new)
     \<and> maxDistance g' =
         Max (set (maxDistance g # map torsoXAfter (takeWhile (\<lambda>fr. \<not> fallsIn fr) frs)))
     \<and> gameState g' = (if \<exists>fr \<in> set frs. fallsIn fr then GAME_OVER else PLAYING)
     \<and> gameOverShown g' =
         gameOverShown g @ (if \<exists>fr \<in> set frs. fallsIn fr then [maxDistance g'] else [])"
  using assms by (rule run_playing)

theorem score_is_maximum_before_fall_witness:
  "gameState (start everyJointCreated 0 menuGame) = PLAYING
   \<and> bodies (character (start everyJointCreated 0 menuGame)) Torso \<noteq> None
   \<and> map_sum id maxDistance (run [strideFrame, fallFrame] (start everyJointCreated 0 menuGame))
       = Inr 1
   \<and> map_sum id gameState (run [strideFrame, fallFrame] (start everyJointCreated 0 menuGame))
       = Inr GAME_OVER
   \<and> map_sum id gameOverShown (run [strideFrame, fallFrame] (start everyJointCreated 0 menuGame))
       = Inr [1]"
proof -
  let ?g = "start everyJointCreated 0 menuGame"
  have p: "gameState ?g = PLAYING" and t: "bodies (character ?g) Torso \<noteq> None"
    by (simp_all add: start_state)
  obtain g' where "run [strideFrame, fallFrame] ?g = Inr g'"
    "maxDistance g' =
       Max (set (maxDistance ?g # map torsoXAfter
         (takeWhile (\<lambda>fr. \<not> fallsIn fr) [strideFrame, fallFrame])))"
    "gameState g' = (if \<exists>fr \<in> set [strideFrame, fallFrame]. fallsIn fr then GAME_OVER else PLAYING)"
    "gameOverShown g' = gameOverShown ?g
       @ (if \<exists>fr \<in> set [strideFrame, fallFrame]. fallsIn fr then [maxDistance g'] else [])"
    using score_is_maximum_before_fall [OF p t, of "[strideFrame, fallFrame]"] by blast
  then show ?thesis
    using p t by (simp add: example_frames start_state menuGame_def)
qed

text \<open>
  Claim C10 as stated fails where it takes the final score for the largest torso x position
  reached in the run: a run that strides to \<open>x = 1\<close> and falls on the next update at
  \<open>x = 2\<close> ends with the final score 1.
\<close>

theorem final_score_misses_fall_step:
  "map_sum id gameOverShown (run [strideFrame, fallFrame] (start everyJointCreated 0 menuGame))
     = Inr [1]
   \<and> Max (set (map torsoXAfter [strideFrame, fallFrame])) = 2"
proof -
  let ?g = "start everyJointCreated 0 menuGame"
  let ?g1 = "?g\<lparr>character := controlStep strideFrame (character ?g), maxDistance := 1,
                 scoreUpdates := scoreUpdates ?g @ [1]\<rparr>"
  have p: "gameState ?g = PLAYING" and t: "bodies (character ?g) Torso \<noteq> None"
    by (simp_all add: start_state)
  have u1: "update strideFrame ?g = Inr ?g1"
    using update_playing [OF p t, of strideFrame] by (simp add: example_frames start_state)
  have p1: "gameState ?g1 = PLAYING" and t1: "bodies (character ?g1) Torso \<noteq> None"
    using p t by (simp_all add: present_controlStep)
  have u2: "update fallFrame ?g1 =
      Inr (gameOver (?g1\<lparr>character := controlStep fallFrame (character ?g1)\<rparr>))"
    using update_playing [OF p1 t1, of fallFrame] by (simp add: example_frames)
  have "run [strideFrame, fallFrame] ?g =
      Inr (gameOver (?g1\<lparr>character := controlStep fallFrame (character ?g1)\<rparr>))"
    by (simp add: u1 u2)
  then show ?thesis
    by (simp add: gameOver_def start_state menuGame_def example_frames)
qed

end
